theory Spec2Isabelle
  imports Complex_Main "HOL-Library.Char_ord" "HOL-Library.List_Lexorder"
    "HOL-Library.Sublist" "HOL-Library.AList"
begin

section \<open>The proximity search of api.py\<close>

text \<open>
  A shallow embedding of \<^verbatim>\<open>src/api/api.py\<close>: the helpers \<^verbatim>\<open>haversine\<close>,
  \<^verbatim>\<open>get_all_neighbors\<close>, \<^verbatim>\<open>save_user_data\<close>, \<^verbatim>\<open>get_token_info\<close> and the routes
  \<^verbatim>\<open>update_location\<close> and \<^verbatim>\<open>users_nearby\<close>.

  Conventions of the embedding.
  \<^item> Python floats are real numbers: rounding, infinities and NaN are not modelled.
  \<^item> Python strings are \<open>string\<close>; Firestore orders strings by their UTF-8 bytes, which
    is the lexicographic order on \<open>char list\<close>.
  \<^item> A value whose type the program does not fix (a field of a stored document, a value
    of a token) is a \<open>py_value\<close>: \<^verbatim>\<open>None\<close>, a boolean, a number or a string. Firestore's
    other types (timestamps, bytes, arrays, maps, references, points) are not modelled.
  \<^item> An exception is a value: a function that can raise returns \<open>py_exception + 'a\<close>.
  \<^item> The libraries the program calls (pygeohash, Firestore, spotipy, urllib) are not part
    of the repository. Their behaviour is a parameter: the record \<open>env\<close> holds one field
    per library call, and each call that may raise returns a sum. The constructor
    \<^verbatim>\<open>spotipy.Spotify(auth=...)\<close> of line 258 and \<^verbatim>\<open>jsonify\<close> are taken not to raise.
  \<^item> The Firestore collection \<^verbatim>\<open>users\<close> is an association list from document id to
    document; a field of a document is \<open>None\<close> when the key is absent and \<open>Some PyNone\<close>
    when the key holds null.
\<close>

subsection \<open>Exceptions and values\<close>

datatype py_exception =
  ValueError | TypeError | KeyError | IndexError | LibraryError string

text \<open>Sequencing: the first exception raised ends the computation.\<close>

definition and_then :: "'e + 'a \<Rightarrow> ('a \<Rightarrow> 'e + 'b) \<Rightarrow> 'e + 'b" where
  "and_then m f = (case m of Inl e \<Rightarrow> Inl e | Inr x \<Rightarrow> f x)"

datatype py_value = PyNone | PyBool bool | PyNum real | PyStr string

text \<open>Python's truth value of a value.\<close>

definition truthy_value :: "py_value \<Rightarrow> bool" where
  "truthy_value v =
     (case v of PyNone \<Rightarrow> False | PyBool b \<Rightarrow> b | PyNum r \<Rightarrow> r \<noteq> 0 | PyStr s \<Rightarrow> s \<noteq> [])"

text \<open>
  The number that arithmetic reads in a value: a boolean is the integer 1 or 0 in Python;
  \<^verbatim>\<open>None\<close> and a string are no number, and \<^verbatim>\<open>math.radians\<close> and a comparison with a
  float raise TypeError on them.
\<close>

definition number_of :: "py_value \<Rightarrow> real option" where
  "number_of v =
     (case v of
        PyNum r \<Rightarrow> Some r
      | PyBool b \<Rightarrow> Some (if b then 1 else 0)
      | _ \<Rightarrow> None)"

text \<open>\<^verbatim>\<open>dict.get(key)\<close>: \<^verbatim>\<open>None\<close> for an absent key.\<close>

definition dict_get :: "py_value option \<Rightarrow> py_value" where
  "dict_get field = (case field of None \<Rightarrow> PyNone | Some v \<Rightarrow> v)"

subsection \<open>Radius to precision (users\_nearby, lines 216 to 220)\<close>

definition select_precision :: "real \<Rightarrow> nat" where
  "select_precision radius_km =
     (if radius_km \<le> 2.5 then 6
      else if radius_km \<le> 20 then 5
      else if radius_km \<le> 80 then 4
      else if radius_km \<le> 600 then 3
      else 2)"

subsection \<open>haversine (lines 70 to 76)\<close>

definition EARTH_RADIUS_KM :: real where
  "EARTH_RADIUS_KM = 6371"

definition radians :: "real \<Rightarrow> real" where
  "radians x = x * pi / 180"

text \<open>\<^verbatim>\<open>math.sqrt\<close> raises ValueError below 0, \<^verbatim>\<open>math.asin\<close> outside \<open>[-1, 1]\<close>.\<close>

definition math_sqrt :: "real \<Rightarrow> py_exception + real" where
  "math_sqrt x = (if x < 0 then Inl ValueError else Inr (sqrt x))"

definition math_asin :: "real \<Rightarrow> py_exception + real" where
  "math_asin x = (if x < -1 \<or> 1 < x then Inl ValueError else Inr (arcsin x))"

text \<open>The value \<^verbatim>\<open>a\<close> of line 74, on arguments already in radians.\<close>

definition haversine_a :: "real \<Rightarrow> real \<Rightarrow> real \<Rightarrow> real \<Rightarrow> real" where
  "haversine_a lat1 lon1 lat2 lon2 =
     (let dlon = lon2 - lon1;
          dlat = lat2 - lat1
      in (sin (dlat / 2))\<^sup>2 + cos lat1 * cos lat2 * (sin (dlon / 2))\<^sup>2)"

text \<open>The function on four numbers.\<close>

definition haversine :: "real \<Rightarrow> real \<Rightarrow> real \<Rightarrow> real \<Rightarrow> py_exception + real" where
  "haversine lat1 lon1 lat2 lon2 =
     (let a = haversine_a (radians lat1) (radians lon1) (radians lat2) (radians lon2)
      in and_then (math_sqrt a) (\<lambda>r.
         and_then (math_asin r) (\<lambda>s.
           let c = 2 * s in Inr (c * EARTH_RADIUS_KM))))"

text \<open>
  The call of line 233: the first two arguments are the floats of the request, the last
  two are the values stored under \<^verbatim>\<open>latitude\<close> and \<^verbatim>\<open>longitude\<close>. Line 71 applies
  \<^verbatim>\<open>math.radians\<close> to \<^verbatim>\<open>[lon1, lat1, lon2, lat2]\<close> in this order and raises TypeError
  on the first value that is not a number.
\<close>

definition haversine_stored :: "real \<Rightarrow> real \<Rightarrow> py_value \<Rightarrow> py_value \<Rightarrow> py_exception + real" where
  "haversine_stored lat1 lon1 lat2 lon2 =
     (case number_of lon2 of
        None \<Rightarrow> Inl TypeError
      | Some lon \<Rightarrow>
          (case number_of lat2 of
             None \<Rightarrow> Inl TypeError
           | Some lat \<Rightarrow> haversine lat1 lon1 lat lon))"

subsection \<open>get\_all\_neighbors (lines 78 to 90)\<close>

datatype direction = Top | Bottom | Right | Left

text \<open>
  \<open>adjacent\<close> stands for \<^verbatim>\<open>pgh.get_adjacent\<close>. \<^verbatim>\<open>list(set(neighbors))\<close> removes the
  duplicates and leaves the order unspecified; \<open>remdups\<close> fixes one order, and no
  statement below depends on it.
\<close>

definition get_all_neighbors ::
  "(string \<Rightarrow> direction \<Rightarrow> py_exception + string) \<Rightarrow> string \<Rightarrow> py_exception + string list" where
  "get_all_neighbors adjacent geohash =
     and_then (adjacent geohash Top) (\<lambda>n.
     and_then (adjacent geohash Bottom) (\<lambda>s.
     and_then (adjacent geohash Right) (\<lambda>e.
     and_then (adjacent geohash Left) (\<lambda>w.
     and_then (adjacent n Left) (\<lambda>nw.
     and_then (adjacent n Right) (\<lambda>ne.
     and_then (adjacent s Left) (\<lambda>sw.
     and_then (adjacent s Right) (\<lambda>se.
       Inr (remdups [geohash, n, s, e, w, nw, ne, sw, se])))))))))"

subsection \<open>The adjacency of pygeohash\<close>

text \<open>
  \<^verbatim>\<open>pgh.get_adjacent\<close> is not under \<^verbatim>\<open>src\<close>. This is the table-driven adjacency the
  library implements: the last character is replaced through a table chosen by the
  direction and by the parity of the length; when the last character lies on the border
  of its parent cell in that direction, the parent is replaced by its own neighbour
  first. The library raises ValueError on the empty geohash, with the message that this is
  possible close to the poles: the recursion reaches the empty geohash when every
  character lies on the border, that is for a cell on the edge of the grid.
\<close>

definition base32 :: string where
  "base32 = ''0123456789bcdefghjkmnpqrstuvwxyz''"

definition neighbor_table :: "direction \<Rightarrow> bool \<Rightarrow> string" where
  "neighbor_table d even_length =
     (case d of
        Right \<Rightarrow> if even_length then ''bc01fg45238967deuvhjyznpkmstqrwx''
                 else ''p0r21436x8zb9dcf5h7kjnmqesgutwvy''
      | Left \<Rightarrow> if even_length then ''238967debc01fg45kmstqrwxuvhjyznp''
                else ''14365h7k9dcfesgujnmqp0r2twvyx8zb''
      | Top \<Rightarrow> if even_length then ''p0r21436x8zb9dcf5h7kjnmqesgutwvy''
               else ''bc01fg45238967deuvhjyznpkmstqrwx''
      | Bottom \<Rightarrow> if even_length then ''14365h7k9dcfesgujnmqp0r2twvyx8zb''
                  else ''238967debc01fg45kmstqrwxuvhjyznp'')"

definition border_table :: "direction \<Rightarrow> bool \<Rightarrow> string" where
  "border_table d even_length =
     (case d of
        Right \<Rightarrow> if even_length then ''bcfguvyz'' else ''prxz''
      | Left \<Rightarrow> if even_length then ''0145hjnp'' else ''028b''
      | Top \<Rightarrow> if even_length then ''prxz'' else ''bcfguvyz''
      | Bottom \<Rightarrow> if even_length then ''028b'' else ''0145hjnp'')"

text \<open>\<^verbatim>\<open>s.index(c)\<close>: the first position of \<open>c\<close>, ValueError when there is none.\<close>

fun str_index :: "string \<Rightarrow> char \<Rightarrow> py_exception + nat" where
  "str_index [] c = Inl ValueError"
| "str_index (x # xs) c =
     (if x = c then Inr 0 else and_then (str_index xs c) (\<lambda>i. Inr (Suc i)))"

text \<open>The recursion runs on the reversed geohash: its head is the last character.\<close>

fun adjacent_rev :: "string \<Rightarrow> direction \<Rightarrow> py_exception + string" where
  "adjacent_rev [] d = Inl ValueError"
| "adjacent_rev (last_char # parent) d =
     (let even_length = even (Suc (length parent))
      in and_then
           (if last_char \<in> set (border_table d even_length)
            then adjacent_rev parent d else Inr parent) (\<lambda>parent'.
         and_then (str_index (neighbor_table d even_length) last_char) (\<lambda>i.
           Inr (base32 ! i # parent'))))"

definition library_get_adjacent :: "string \<Rightarrow> direction \<Rightarrow> py_exception + string" where
  "library_get_adjacent geohash d = and_then (adjacent_rev (rev geohash) d) (\<lambda>r. Inr (rev r))"


subsection \<open>The users collection\<close>

text \<open>
  A document of the collection \<^verbatim>\<open>users\<close>, with the keys the program reads or writes.
  The key \<^verbatim>\<open>image\<close> is the field \<open>image_url\<close>. \<open>last_updated\<close> holds the server's
  timestamp, which the program writes and never reads.
\<close>

record user_data =
  spotify_access_token :: "py_value option"
  spotify_refresh_token :: "py_value option"
  expires_at :: "py_value option"
  last_updated :: "nat option"
  location_sharing_enabled :: "py_value option"
  latitude :: "py_value option"
  longitude :: "py_value option"
  geohash :: "py_value option"
  track :: "py_value option"
  artist :: "py_value option"
  image_url :: "py_value option"
  user_name :: "py_value option"

type_synonym users = "(string \<times> user_data) list"

definition no_fields :: user_data where
  "no_fields =
     \<lparr>spotify_access_token = None, spotify_refresh_token = None, expires_at = None,
      last_updated = None, location_sharing_enabled = None, latitude = None,
      longitude = None, geohash = None, track = None, artist = None, image_url = None,
      user_name = None\<rparr>"

text \<open>The dictionary \<^verbatim>\<open>token_info\<close>; a field is \<open>None\<close> when the key is absent.\<close>

record token_info =
  access_token :: "py_value option"
  refresh_token :: "py_value option"
  token_expires_at :: "py_value option"

subsection \<open>What the Spotify client returns\<close>

text \<open>
  The objects of the Spotify API, with the keys the program reads. Of a profile,
  \<^verbatim>\<open>display_name\<close> may be absent or hold null, and \<open>profile_spotify_url\<close> is \<open>None\<close> when
  \<^verbatim>\<open>external_urls\<close> or its key \<^verbatim>\<open>spotify\<close> is absent. A track that is present has its
  name and URLs; its lists of artists and of album images may be empty, and the
  \<^verbatim>\<open>item\<close> of what is playing may be null.
\<close>

record artist_object =
  artist_name :: string
  artist_spotify_url :: string

record track_object =
  track_name :: string
  track_artists :: "artist_object list"
  album_images :: "string list"
  track_spotify_url :: string

record currently_playing =
  is_playing :: "py_value option"
  item :: "track_object option"

record user_profile =
  display_name :: "py_value option"
  profile_spotify_url :: "string option"

subsection \<open>The libraries\<close>

text \<open>
  One field per library call. \<open>stream_raises\<close>, \<open>get_raises\<close> and \<open>write_raises\<close> say
  whether the Firestore call for that range prefix or document id raises;
  \<open>spotify_oauth_raises\<close> says whether building the \<^verbatim>\<open>SpotifyOAuth\<close> object of
  \<^verbatim>\<open>get_spotify_oauth\<close> raises; the Spotify calls take the access token the client was
  built with. \<open>python_str\<close> is the text of a number in an f-string.
\<close>

record env =
  pgh_encode :: "real \<Rightarrow> real \<Rightarrow> nat \<Rightarrow> py_exception + string"
  pgh_get_adjacent :: "string \<Rightarrow> direction \<Rightarrow> py_exception + string"
  stream_raises :: "string \<Rightarrow> py_exception option"
  get_raises :: "string \<Rightarrow> py_exception option"
  write_raises :: "string \<Rightarrow> py_exception option"
  server_timestamp :: nat
  spotify_oauth_raises :: "py_exception option"
  is_token_expired :: "token_info \<Rightarrow> py_exception + bool"
  refresh_access_token :: "py_value \<Rightarrow> py_exception + token_info"
  current_user :: "py_value \<Rightarrow> py_exception + user_profile"
  current_user_playing_track :: "py_value \<Rightarrow> py_exception + currently_playing option"
  urllib_quote :: "string \<Rightarrow> string"
  python_str :: "real \<Rightarrow> string"
  float_of :: "string \<Rightarrow> real option"

text \<open>Python's truth value of a string that may be \<^verbatim>\<open>None\<close>.\<close>

definition truthy :: "string option \<Rightarrow> bool" where
  "truthy s = (case s of None \<Rightarrow> False | Some t \<Rightarrow> t \<noteq> [])"

subsection \<open>save\_user\_data (lines 92 to 106)\<close>

text \<open>\<^verbatim>\<open>user_ref.set(data, merge=True)\<close>: the keys given replace those of the document,
  which is created when it does not exist.\<close>

definition firestore_write :: "env \<Rightarrow> users \<Rightarrow> string \<Rightarrow> user_data \<Rightarrow> py_exception + users" where
  "firestore_write env db doc_id d =
     (case write_raises env doc_id of
        Some e \<Rightarrow> Inl e
      | None \<Rightarrow> Inr (AList.update doc_id d db))"

text \<open>
  \<open>location\<close> is \<^verbatim>\<open>None\<close> or the dictionary with the keys \<^verbatim>\<open>lat\<close> and \<^verbatim>\<open>lon\<close>.
  Lines 95 to 97 raise KeyError on a token without one of the three keys. In line 104
  \<^verbatim>\<open>pgh.encode\<close> compares its two arguments with floats, so a value that is not a number
  raises TypeError.
\<close>

definition save_user_data ::
  "env \<Rightarrow> users \<Rightarrow> string \<Rightarrow> token_info \<Rightarrow> (py_value \<times> py_value) option \<Rightarrow> py_value
     \<Rightarrow> py_exception + users" where
  "save_user_data env db spotify_id ti location is_sharing =
     (case (access_token ti, refresh_token ti, token_expires_at ti) of
        (Some a, Some r, Some x) \<Rightarrow>
          (let old = (case map_of db spotify_id of None \<Rightarrow> no_fields | Some d \<Rightarrow> d);
               data_to_set = old
                 \<lparr>spotify_access_token := Some a,
                  spotify_refresh_token := Some r,
                  expires_at := Some x,
                  last_updated := Some (server_timestamp env),
                  location_sharing_enabled := Some is_sharing\<rparr>
           in case location of
                None \<Rightarrow> firestore_write env db spotify_id data_to_set
              | Some (lat, lon) \<Rightarrow>
                  if lat \<noteq> PyNone \<and> lon \<noteq> PyNone
                  then (case (number_of lat, number_of lon) of
                          (Some x, Some y) \<Rightarrow>
                            and_then (pgh_encode env x y 7) (\<lambda>g.
                              firestore_write env db spotify_id
                                (data_to_set
                                   \<lparr>latitude := Some lat, longitude := Some lon,
                                    geohash := Some (PyStr g)\<rparr>))
                        | _ \<Rightarrow> Inl TypeError)
                  else firestore_write env db spotify_id data_to_set)
      | _ \<Rightarrow> Inl KeyError)"

subsection \<open>get\_token\_info (lines 108 to 130)\<close>

text \<open>
  The result is the value returned (\<open>PyNone\<close> for \<^verbatim>\<open>None\<close>) or the exception that leaves
  the function, and the collection after the call: a refreshed token is saved.
  Exceptions of \<^verbatim>\<open>refresh_access_token\<close> and \<^verbatim>\<open>save_user_data\<close> are caught (line 128);
  those of \<^verbatim>\<open>user_ref.get\<close>, of \<^verbatim>\<open>get_spotify_oauth\<close> and of \<^verbatim>\<open>is_token_expired\<close> are not.
  Line 130 is outside the handler and would raise KeyError on a refreshed token without
  \<^verbatim>\<open>access_token\<close>; \<open>save_user_data\<close> has raised on such a token before.
\<close>

definition get_token_info ::
  "env \<Rightarrow> users \<Rightarrow> string \<Rightarrow> (py_exception + py_value) \<times> users" where
  "get_token_info env db spotify_id =
     (case get_raises env spotify_id of
        Some e \<Rightarrow> (Inl e, db)
      | None \<Rightarrow>
         (case map_of db spotify_id of
            None \<Rightarrow> (Inr PyNone, db)
          | Some data \<Rightarrow>
              (let ti = \<lparr>access_token = Some (dict_get (spotify_access_token data)),
                         refresh_token = Some (dict_get (spotify_refresh_token data)),
                         token_expires_at = Some (dict_get (expires_at data))\<rparr>
               in case spotify_oauth_raises env of
                    Some e \<Rightarrow> (Inl e, db)
                  | None \<Rightarrow>
                     (case is_token_expired env ti of
                        Inl e \<Rightarrow> (Inl e, db)
                      | Inr False \<Rightarrow> (Inr (dict_get (spotify_access_token data)), db)
                      | Inr True \<Rightarrow>
                          (case refresh_access_token env (dict_get (spotify_refresh_token data)) of
                             Inl e \<Rightarrow> (Inr PyNone, db)
                           | Inr new_token_info \<Rightarrow>
                               (let is_sharing =
                                      (case location_sharing_enabled data of
                                         None \<Rightarrow> PyBool False
                                       | Some b \<Rightarrow> b);
                                    location =
                                      (if truthy_value (dict_get (latitude data))
                                       then Some (dict_get (latitude data), dict_get (longitude data))
                                       else None)
                                in case save_user_data env db spotify_id new_token_info location
                                          is_sharing of
                                     Inl e \<Rightarrow> (Inr PyNone, db)
                                   | Inr db' \<Rightarrow>
                                       (case access_token new_token_info of
                                          None \<Rightarrow> (Inl KeyError, db')
                                        | Some a \<Rightarrow> (Inr a, db'))))))))"

subsection \<open>Responses of the routes\<close>

text \<open>The error responses 401, 400 and 404 of the routes, and an exception that no handler
  of the route catches (the framework answers 500).\<close>

datatype failure = Http401 | Http400 | Http404 | Uncaught py_exception

subsection \<open>update\_location (lines 182 to 202)\<close>

record location_form =
  form_lat :: "string option"
  form_lon :: "string option"
  form_sharing :: "string option"

definition update_location ::
  "env \<Rightarrow> users \<Rightarrow> string option \<Rightarrow> location_form \<Rightarrow> failure + users" where
  "update_location env db session_spotify_id form =
     (case session_spotify_id of
        None \<Rightarrow> Inl Http401
      | Some spotify_id \<Rightarrow>
          if spotify_id = [] then Inl Http401
          else
            (let is_sharing = (form_sharing form = Some ''on'');
                 location_data =
                   (if truthy (form_lat form) \<and> truthy (form_lon form)
                    then (case (form_lat form, form_lon form) of
                            (Some lat, Some lon) \<Rightarrow>
                              (case (float_of env lat, float_of env lon) of
                                 (Some x, Some y) \<Rightarrow> Inr (Some (x, y))
                               | _ \<Rightarrow> Inl (Uncaught ValueError))
                          | _ \<Rightarrow> Inr None)
                    else Inr None)
             in and_then location_data (\<lambda>loc.
                  case get_raises env spotify_id of
                    Some e \<Rightarrow> Inl (Uncaught e)
                  | None \<Rightarrow>
                      (case map_of db spotify_id of
                         None \<Rightarrow> Inl Http404
                       | Some old \<Rightarrow>
                           (let data_to_update = old
                                  \<lparr>last_updated := Some (server_timestamp env),
                                   location_sharing_enabled := Some (PyBool is_sharing)\<rparr>;
                                written =
                                  (case loc of
                                     None \<Rightarrow> firestore_write env db spotify_id data_to_update
                                   | Some (x, y) \<Rightarrow>
                                       and_then (pgh_encode env x y 7) (\<lambda>g.
                                         firestore_write env db spotify_id
                                           (data_to_update
                                              \<lparr>latitude := Some (PyNum x),
                                               longitude := Some (PyNum y),
                                               geohash := Some (PyStr g)\<rparr>)))
                            in case written of
                                 Inl e \<Rightarrow> Inl (Uncaught e)
                               | Inr db' \<Rightarrow> Inr db')))))"


subsection \<open>users\_nearby (lines 204 to 285)\<close>

text \<open>
  The JSON body of the request. A key is absent, holds a value \<^verbatim>\<open>float\<close> rejects, or
  holds a number. Lines 208 to 214 answer 400 when the body cannot be read, when
  \<^verbatim>\<open>latitude\<close> or \<^verbatim>\<open>longitude\<close> is absent, and when \<^verbatim>\<open>float\<close> rejects a value;
  an absent \<^verbatim>\<open>radius_km\<close> is 5.
\<close>

datatype json_value = Absent | NotNumeric | Number real

record nearby_request =
  req_latitude :: json_value
  req_longitude :: json_value
  req_radius_km :: json_value

definition parse_request :: "nearby_request option \<Rightarrow> (real \<times> real \<times> real) option" where
  "parse_request body =
     (case body of
        None \<Rightarrow> None
      | Some data \<Rightarrow>
          (case req_latitude data of
             Number center_lat \<Rightarrow>
               (case req_longitude data of
                  Number center_lon \<Rightarrow>
                    (case req_radius_km data of
                       Absent \<Rightarrow> Some (center_lat, center_lon, 5)
                     | NotNumeric \<Rightarrow> None
                     | Number radius_km \<Rightarrow> Some (center_lat, center_lon, radius_km))
                | _ \<Rightarrow> None)
           | _ \<Rightarrow> None))"

text \<open>
  The query of line 227 on one cell: the documents whose \<^verbatim>\<open>geohash\<close> is a string with
  \<^verbatim>\<open>hash_prefix <= geohash <= hash_prefix + '~'\<close> and whose
  \<^verbatim>\<open>location_sharing_enabled\<close> is the boolean true. A range filter of Firestore matches
  only values of the type of its bound. The documents come in the order of the collection;
  Firestore's own order of the result is not modelled, and the query raises before it
  yields a document or not at all.
\<close>

definition query_matches :: "string \<Rightarrow> user_data \<Rightarrow> bool" where
  "query_matches hash_prefix d =
     ((case geohash d of
         Some (PyStr g) \<Rightarrow> hash_prefix \<le> g \<and> g \<le> hash_prefix @ ''~''
       | _ \<Rightarrow> False)
      \<and> location_sharing_enabled d = Some (PyBool True))"

definition query_stream :: "env \<Rightarrow> users \<Rightarrow> string \<Rightarrow> py_exception + (string \<times> user_data) list" where
  "query_stream env db hash_prefix =
     (case stream_raises env hash_prefix of
        Some e \<Rightarrow> Inl e
      | None \<Rightarrow> Inr (filter (\<lambda>doc. query_matches hash_prefix (snd doc)) db))"

text \<open>A row of the response. The values taken from the stored document keep their type.\<close>

record nearby_user =
  row_id :: string
  row_latitude :: py_value
  row_longitude :: py_value
  row_track_name :: py_value
  row_artist :: py_value
  row_album_art_url :: py_value
  row_user_name :: py_value
  row_spotify_url :: string
  row_track_url :: string
  row_artist_url :: string

text \<open>The text of a value in an f-string.\<close>

definition format_value :: "env \<Rightarrow> py_value \<Rightarrow> string" where
  "format_value env v =
     (case v of
        PyNone \<Rightarrow> ''None''
      | PyBool b \<Rightarrow> if b then ''True'' else ''False''
      | PyNum r \<Rightarrow> python_str env r
      | PyStr s \<Rightarrow> s)"

text \<open>\<^verbatim>\<open>urllib.parse.quote\<close> on a stored value: TypeError unless it is a string.\<close>

definition quote_value :: "env \<Rightarrow> py_value \<Rightarrow> py_exception + string" where
  "quote_value env v = (case v of PyStr s \<Rightarrow> Inr (urllib_quote env s) | _ \<Rightarrow> Inl TypeError)"

text \<open>
  Lines 237 to 254: the row of a document whose id contains \<^verbatim>\<open>fake_user\<close>, or the
  exception of line 241. \<open>lat\<close> and \<open>lon\<close> are the stored coordinates.
\<close>

definition fake_user_row ::
  "env \<Rightarrow> string \<Rightarrow> user_data \<Rightarrow> py_value \<Rightarrow> py_value \<Rightarrow> py_exception + nearby_user" where
  "fake_user_row env nearby_user_id d lat lon =
     (let track_name = (case track d of None \<Rightarrow> PyStr ''Song'' | Some t \<Rightarrow> t);
          artist_name = (case artist d of None \<Rightarrow> PyStr ''Artist'' | Some a \<Rightarrow> a);
          encoded_query =
            urllib_quote env (format_value env track_name @ '' '' @ format_value env artist_name);
          fake_track_url = ''https://open.spotify.com/search/'' @ encoded_query
      in and_then (quote_value env artist_name) (\<lambda>encoded_artist.
           let fake_artist_url =
                 ''https://open.spotify.com/search/'' @ encoded_artist @ ''&type=artist''
           in Inr \<lparr>row_id = nearby_user_id,
                    row_latitude = lat,
                    row_longitude = lon,
                    row_track_name = track_name,
                    row_artist = artist_name,
                    row_album_art_url =
                      (case image_url d of
                         None \<Rightarrow> PyStr ''https://cdn-icons-png.flaticon.com/512/3209/3209995.png''
                       | Some i \<Rightarrow> i),
                    row_user_name =
                      (case user_name d of None \<Rightarrow> PyStr ''Anonymous'' | Some u \<Rightarrow> u),
                    row_spotify_url = ''https://open.spotify.com/'',
                    row_track_url = fake_track_url,
                    row_artist_url = fake_artist_url\<rparr>))"

text \<open>
  Lines 259 to 266, with the client built on \<open>tok\<close>: the name and the profile URL of the
  row. The handler of line 264 catches every exception of the three lines, of the call
  and of a missing key, and then both values are the defaults. A \<^verbatim>\<open>display_name\<close> that is
  present is taken as it is, null included.
\<close>

definition profile_or_default :: "env \<Rightarrow> py_value \<Rightarrow> py_value \<times> string" where
  "profile_or_default env tok =
     (case current_user env tok of
        Inl e \<Rightarrow> (PyStr ''Spotify User'', ''#'')
      | Inr user_profile \<Rightarrow>
          (case profile_spotify_url user_profile of
             None \<Rightarrow> (PyStr ''Spotify User'', ''#'')
           | Some url \<Rightarrow>
               ((case display_name user_profile of
                   None \<Rightarrow> PyStr ''Spotify User''
                 | Some n \<Rightarrow> n), url)))"

text \<open>
  Lines 258 to 284, with the client built on \<open>tok\<close>: the row appended, or \<open>None\<close> when
  nothing is appended. A failed profile does not end the candidate: the row is built with
  the defaults. The outer handler (line 284) drops the candidate on any exception: of
  \<^verbatim>\<open>current_user_playing_track\<close>, of a missing \<^verbatim>\<open>item\<close> (TypeError), of an empty list of
  artists or images (IndexError).
\<close>

definition now_playing_row ::
  "env \<Rightarrow> py_value \<Rightarrow> string \<Rightarrow> py_value \<Rightarrow> py_value \<Rightarrow> nearby_user option" where
  "now_playing_row env tok nearby_user_id lat lon =
     (let profile = profile_or_default env tok;
          real_name = fst profile;
          profile_url = snd profile
      in case current_user_playing_track env tok of
           Inl e \<Rightarrow> None
         | Inr None \<Rightarrow> None
         | Inr (Some tr) \<Rightarrow>
             if truthy_value (dict_get (is_playing tr))
             then (case item tr of
                     None \<Rightarrow> None
                   | Some it \<Rightarrow>
                       (case track_artists it of
                          [] \<Rightarrow> None
                        | a # _ \<Rightarrow>
                            (case album_images it of
                               [] \<Rightarrow> None
                             | img # _ \<Rightarrow>
                                 Some \<lparr>row_id = nearby_user_id,
                                       row_latitude = lat,
                                       row_longitude = lon,
                                       row_track_name = PyStr (track_name it),
                                       row_artist = PyStr (artist_name a),
                                       row_album_art_url = PyStr img,
                                       row_user_name = real_name,
                                       row_spotify_url = profile_url,
                                       row_track_url = track_spotify_url it,
                                       row_artist_url = artist_spotify_url a\<rparr>)))
             else None)"

text \<open>
  The body of the inner loop (lines 230 to 284) on one document of the query: the rows
  after it, or the exception that leaves the loop, and the collection after it.
\<close>

definition visit_doc ::
  "env \<Rightarrow> string \<Rightarrow> real \<Rightarrow> real \<Rightarrow> real \<Rightarrow> string \<times> user_data \<Rightarrow> nearby_user list \<Rightarrow> users
     \<Rightarrow> (py_exception + nearby_user list) \<times> users" where
  "visit_doc env spotify_id center_lat center_lon radius_km doc nearby_users_data db =
     (let doc_id = fst doc; d = snd doc
      in if doc_id = spotify_id then (Inr nearby_users_data, db)
         else
           (case (latitude d, longitude d) of
              (Some lat, Some lon) \<Rightarrow>
                (case haversine_stored center_lat center_lon lat lon of
                   Inl e \<Rightarrow> (Inl e, db)
                 | Inr distance \<Rightarrow>
                     if distance \<le> radius_km * 1.1
                     then
                       (if sublist ''fake_user'' doc_id
                        then (case fake_user_row env doc_id d lat lon of
                                Inl e \<Rightarrow> (Inl e, db)
                              | Inr row \<Rightarrow> (Inr (nearby_users_data @ [row]), db))
                        else
                          (case get_token_info env db doc_id of
                             (Inl e, db') \<Rightarrow> (Inl e, db')
                           | (Inr tok, db') \<Rightarrow>
                               if truthy_value tok
                               then (case now_playing_row env tok doc_id lat lon of
                                       None \<Rightarrow> (Inr nearby_users_data, db')
                                     | Some row \<Rightarrow> (Inr (nearby_users_data @ [row]), db'))
                               else (Inr nearby_users_data, db')))
                     else (Inr nearby_users_data, db))
            | _ \<Rightarrow> (Inr nearby_users_data, db)))"

fun scan_docs ::
  "env \<Rightarrow> string \<Rightarrow> real \<Rightarrow> real \<Rightarrow> real \<Rightarrow> (string \<times> user_data) list \<Rightarrow> nearby_user list \<Rightarrow> users
     \<Rightarrow> (py_exception + nearby_user list) \<times> users" where
  "scan_docs env spotify_id center_lat center_lon radius_km [] rows db = (Inr rows, db)"
| "scan_docs env spotify_id center_lat center_lon radius_km (doc # docs) rows db =
     (case visit_doc env spotify_id center_lat center_lon radius_km doc rows db of
        (Inl e, db') \<Rightarrow> (Inl e, db')
      | (Inr rows', db') \<Rightarrow> scan_docs env spotify_id center_lat center_lon radius_km docs rows' db')"

text \<open>The outer loop (lines 226 to 284). The query of a cell reads the collection as it is
  when the cell is reached.\<close>

fun scan_cells ::
  "env \<Rightarrow> string \<Rightarrow> real \<Rightarrow> real \<Rightarrow> real \<Rightarrow> string list \<Rightarrow> nearby_user list \<Rightarrow> users
     \<Rightarrow> (py_exception + nearby_user list) \<times> users" where
  "scan_cells env spotify_id center_lat center_lon radius_km [] rows db = (Inr rows, db)"
| "scan_cells env spotify_id center_lat center_lon radius_km (hash_prefix # cells) rows db =
     (case query_stream env db hash_prefix of
        Inl e \<Rightarrow> (Inl e, db)
      | Inr docs \<Rightarrow>
          (case scan_docs env spotify_id center_lat center_lon radius_km docs rows db of
             (Inl e, db') \<Rightarrow> (Inl e, db')
           | (Inr rows', db') \<Rightarrow>
               scan_cells env spotify_id center_lat center_lon radius_km cells rows' db'))"

definition users_nearby ::
  "env \<Rightarrow> users \<Rightarrow> string option \<Rightarrow> nearby_request option \<Rightarrow> (failure + nearby_user list) \<times> users" where
  "users_nearby env db session_spotify_id body =
     (case session_spotify_id of
        None \<Rightarrow> (Inl Http401, db)
      | Some spotify_id \<Rightarrow>
          if spotify_id = [] then (Inl Http401, db)
          else
            (case parse_request body of
               None \<Rightarrow> (Inl Http400, db)
             | Some (center_lat, center_lon, radius_km) \<Rightarrow>
                 (let precision = select_precision radius_km
                  in case pgh_encode env center_lat center_lon precision of
                       Inl e \<Rightarrow> (Inl (Uncaught e), db)
                     | Inr current_geohash \<Rightarrow>
                         (case get_all_neighbors (pgh_get_adjacent env) current_geohash of
                            Inl e \<Rightarrow> (Inl (Uncaught e), db)
                          | Inr search_hashes \<Rightarrow>
                              (case scan_cells env spotify_id center_lat center_lon radius_km
                                      search_hashes [] db of
                                 (Inl e, db') \<Rightarrow> (Inl (Uncaught e), db')
                               | (Inr rows, db') \<Rightarrow> (Inr rows, db'))))))"


section \<open>Notions used in the statements\<close>

text \<open>A geohash: a string over the alphabet \<open>base32\<close> that is not empty.\<close>

definition valid_geohash :: "string \<Rightarrow> bool" where
  "valid_geohash g = (g \<noteq> [] \<and> list_all (\<lambda>c. c \<in> set base32) g)"

text \<open>
  The candidates of a cell as the specification words them: sharing enabled and the
  geohash in the half-open range from the cell to the cell followed by a tilde; and the
  same with the cell as a prefix of the geohash.
\<close>

definition half_open_candidate :: "string \<Rightarrow> user_data \<Rightarrow> bool" where
  "half_open_candidate cell d =
     (location_sharing_enabled d = Some (PyBool True) \<and>
      (case geohash d of Some (PyStr g) \<Rightarrow> cell \<le> g \<and> g < cell @ ''~'' | _ \<Rightarrow> False))"



text \<open>
  A document on which the loop body raises TypeError: both coordinates are present and
  one is not a number, or the artist is present and not a string.
\<close>

definition is_string :: "py_value \<Rightarrow> bool" where
  "is_string v = (case v of PyStr s \<Rightarrow> True | _ \<Rightarrow> False)"

definition mistyped :: "user_data \<Rightarrow> bool" where
  "mistyped d =
     ((case (latitude d, longitude d) of
         (Some lat, Some lon) \<Rightarrow> number_of lat = None \<or> number_of lon = None
       | _ \<Rightarrow> False)
      \<or> (case artist d of Some a \<Rightarrow> \<not> is_string a | None \<Rightarrow> False))"

text \<open>
  What a search reads of a document and none of its writes changes: whether sharing is
  enabled, the coordinates and the artist.
\<close>

definition search_view ::
  "user_data \<Rightarrow> bool \<times> py_value option \<times> py_value option \<times> py_value option" where
  "search_view d =
     (location_sharing_enabled d = Some (PyBool True), latitude d, longitude d, artist d)"

text \<open>
  What holds of every row the search appends: it is not the requester's, its coordinates
  are numbers within 1.1 times the radius of the centre, and it is either the stored row
  of a \<^verbatim>\<open>fake_user\<close> document or the row of a track that the Spotify client reports as
  playing, for a token that \<open>get_token_info\<close> returned.
\<close>

definition accepted_row :: "env \<Rightarrow> string \<Rightarrow> real \<Rightarrow> real \<Rightarrow> real \<Rightarrow> nearby_user \<Rightarrow> bool" where
  "accepted_row env spotify_id center_lat center_lon radius_km row =
     (row_id row \<noteq> spotify_id \<and>
      (\<exists>distance. haversine_stored center_lat center_lon (row_latitude row) (row_longitude row)
                      = Inr distance
         \<and> distance \<le> radius_km * 1.1) \<and>
      (if sublist ''fake_user'' (row_id row)
       then (\<exists>d. fake_user_row env (row_id row) d (row_latitude row) (row_longitude row) = Inr row)
       else (\<exists>db tok. fst (get_token_info env db (row_id row)) = Inr tok \<and> truthy_value tok \<and>
               now_playing_row env tok (row_id row) (row_latitude row) (row_longitude row) = Some row)))"

text \<open>
  The exceptions of the libraries that no handler of \<open>users_nearby\<close> catches: those of
  \<^verbatim>\<open>pgh.encode\<close>, of \<^verbatim>\<open>pgh.get_adjacent\<close>, of the query of a cell, and in
  \<open>get_token_info\<close> those of reading the document, of \<^verbatim>\<open>get_spotify_oauth\<close> and of
  \<^verbatim>\<open>is_token_expired\<close>.
\<close>

definition raised_outside_handlers :: "env \<Rightarrow> py_exception \<Rightarrow> bool" where
  "raised_outside_handlers env e =
     ((\<exists>lat lon precision. pgh_encode env lat lon precision = Inl e) \<or>
      (\<exists>g d. pgh_get_adjacent env g d = Inl e) \<or>
      (\<exists>hash_prefix. stream_raises env hash_prefix = Some e) \<or>
      (\<exists>doc_id. get_raises env doc_id = Some e) \<or>
      spotify_oauth_raises env = Some e \<or>
      (\<exists>ti. is_token_expired env ti = Inl e))"

section \<open>An example\<close>

text \<open>
  A search around the point (57, 10), whose geohash is \<^verbatim>\<open>u4ph789c0fh\<close>, by the user
  \<^verbatim>\<open>alice\<close>, at the clock time 1700000000. The encoder of the example answers for this
  point; the adjacency is that of the library; no call raises; a token is expired when
  less than 60 seconds are left, as in spotipy; and Spotify knows the token of \<^verbatim>\<open>bob\<close>,
  who is playing a track, and reports nothing playing for any other token.
\<close>

definition example_track :: currently_playing where
  "example_track =
     \<lparr>is_playing = Some (PyBool True),
      item = Some
        \<lparr>track_name = ''So What'',
         track_artists =
           [\<lparr>artist_name = ''Miles Davis'',
             artist_spotify_url = ''https://open.spotify.com/artist/0kbYTNQb4Pb1rPbbaF0pT4''\<rparr>],
         album_images = [''https://i.scdn.co/image/ab67616d0000b273''],
         track_spotify_url = ''https://open.spotify.com/track/4vLYewWIvqHfKtJDk8c8tq''\<rparr>\<rparr>"

definition example_env :: env where
  "example_env =
     \<lparr>pgh_encode =
        (\<lambda>lat lon precision.
           if lat = 57 \<and> lon = 10 then Inr (take precision ''u4ph789c0fh'')
           else Inl (LibraryError ''not a point of the example'')),
      pgh_get_adjacent = library_get_adjacent,
      stream_raises = (\<lambda>hash_prefix. None),
      get_raises = (\<lambda>doc_id. None),
      write_raises = (\<lambda>doc_id. None),
      server_timestamp = 1700000000,
      spotify_oauth_raises = None,
      is_token_expired =
        (\<lambda>ti. case token_expires_at ti of
                 Some (PyNum t) \<Rightarrow> Inr (t - 1700000000 < 60)
               | _ \<Rightarrow> Inl TypeError),
      refresh_access_token = (\<lambda>t. Inl (LibraryError ''invalid_grant'')),
      current_user =
        (\<lambda>tok. if tok = PyStr ''BQD-bob''
                then Inr \<lparr>display_name = Some (PyStr ''Bob''),
                          profile_spotify_url = Some ''https://open.spotify.com/user/bob''\<rparr>
                else Inl (LibraryError ''401 Unauthorized'')),
      current_user_playing_track =
        (\<lambda>tok. if tok = PyStr ''BQD-bob'' then Inr (Some example_track) else Inr None),
      urllib_quote =
        (\<lambda>s. if s = ''Blue in Green Bill Evans'' then ''Blue%20in%20Green%20Bill%20Evans''
              else if s = ''Bill Evans'' then ''Bill%20Evans''
              else if s = ''Blue in Green None'' then ''Blue%20in%20Green%20None''
              else s),
      python_str = (\<lambda>r. ''0.0''),
      float_of =
        (\<lambda>s. if s = ''57'' then Some 57
             else if s = ''10'' then Some 10
             else None)\<rparr>"

text \<open>
  The collection: the requester; \<^verbatim>\<open>bob\<close>, who shares his location at the centre;
  a \<^verbatim>\<open>fake_user\<close> document at the centre with a stored track, artist, image and name;
  \<^verbatim>\<open>carol\<close>, at the centre but not sharing; \<^verbatim>\<open>dave\<close>, sharing, with a geohash of the
  centre's cell but coordinates at the antipode; and \<^verbatim>\<open>erin\<close>, sharing, at (38, -122).
  Every account holds a token that expires at 1700003000.
\<close>

definition example_located :: "bool \<Rightarrow> real \<Rightarrow> real \<Rightarrow> string \<Rightarrow> user_data" where
  "example_located sharing lat lon g =
     no_fields
       \<lparr>location_sharing_enabled := Some (PyBool sharing), latitude := Some (PyNum lat),
        longitude := Some (PyNum lon), geohash := Some (PyStr g)\<rparr>"

definition example_account :: "string \<Rightarrow> user_data \<Rightarrow> user_data" where
  "example_account tok d =
     d\<lparr>spotify_access_token := Some (PyStr tok),
       spotify_refresh_token := Some (PyStr ''AQC-refresh''),
       expires_at := Some (PyNum 1700003000)\<rparr>"

definition example_fake :: user_data where
  "example_fake =
     (example_located True 57 10 ''u4ph789'')
       \<lparr>track := Some (PyStr ''Blue in Green''), artist := Some (PyStr ''Bill Evans''),
        image_url := Some (PyStr ''https://i.scdn.co/image/ab67616d0000b2731''),
        user_name := Some (PyStr ''Demo Listener'')\<rparr>"

definition example_alice :: user_data where
  "example_alice = example_account ''BQD-alice'' (example_located True 57 10 ''u4ph789'')"

definition example_bob :: user_data where
  "example_bob = example_account ''BQD-bob'' (example_located True 57 10 ''u4ph789'')"

definition example_carol :: user_data where
  "example_carol = example_account ''BQD-carol'' (example_located False 57 10 ''u4ph789'')"

definition example_dave :: user_data where
  "example_dave = example_account ''BQD-dave'' (example_located True (- 57) (- 170) ''u4ph789'')"

definition example_erin :: user_data where
  "example_erin = example_account ''BQD-erin'' (example_located True 38 (- 122) ''9qc0pvd'')"

definition example_users :: users where
  "example_users =
     [(''alice'', example_alice), (''bob'', example_bob), (''fake_user_1'', example_fake),
      (''carol'', example_carol), (''dave'', example_dave), (''erin'', example_erin)]"

definition example_request :: nearby_request where
  "example_request =
     \<lparr>req_latitude = Number 57, req_longitude = Number 10, req_radius_km = Absent\<rparr>"

definition example_row_bob :: nearby_user where
  "example_row_bob =
     \<lparr>row_id = ''bob'', row_latitude = PyNum 57, row_longitude = PyNum 10,
      row_track_name = PyStr ''So What'', row_artist = PyStr ''Miles Davis'',
      row_album_art_url = PyStr ''https://i.scdn.co/image/ab67616d0000b273'',
      row_user_name = PyStr ''Bob'', row_spotify_url = ''https://open.spotify.com/user/bob'',
      row_track_url = ''https://open.spotify.com/track/4vLYewWIvqHfKtJDk8c8tq'',
      row_artist_url = ''https://open.spotify.com/artist/0kbYTNQb4Pb1rPbbaF0pT4''\<rparr>"

definition example_row_fake :: nearby_user where
  "example_row_fake =
     \<lparr>row_id = ''fake_user_1'', row_latitude = PyNum 57, row_longitude = PyNum 10,
      row_track_name = PyStr ''Blue in Green'', row_artist = PyStr ''Bill Evans'',
      row_album_art_url = PyStr ''https://i.scdn.co/image/ab67616d0000b2731'',
      row_user_name = PyStr ''Demo Listener'', row_spotify_url = ''https://open.spotify.com/'',
      row_track_url = ''https://open.spotify.com/search/Blue%20in%20Green%20Bill%20Evans'',
      row_artist_url = ''https://open.spotify.com/search/Bill%20Evans&type=artist''\<rparr>"

text \<open>The same libraries with the Spotify service failing on every call, and with the
  index failing on the query of the cell east of the centre.\<close>

definition example_env_spotify_down :: env where
  "example_env_spotify_down =
     example_env
       \<lparr>current_user := (\<lambda>tok. Inl (LibraryError ''503 Service Unavailable'')),
        current_user_playing_track := (\<lambda>tok. Inl (LibraryError ''503 Service Unavailable''))\<rparr>"

definition example_env_cell_down :: env where
  "example_env_cell_down =
     example_env
       \<lparr>stream_raises :=
          (\<lambda>hash_prefix. if hash_prefix = ''u4phk''
                          then Some (LibraryError ''503 Service Unavailable'') else None)\<rparr>"

text \<open>The same libraries with only the profile call failing.\<close>

definition example_env_profile_down :: env where
  "example_env_profile_down =
     example_env\<lparr>current_user := (\<lambda>tok. Inl (LibraryError ''503 Service Unavailable''))\<rparr>"

definition example_row_bob_default :: nearby_user where
  "example_row_bob_default =
     example_row_bob\<lparr>row_user_name := PyStr ''Spotify User'', row_spotify_url := ''#''\<rparr>"

text \<open>The same collection with null stored as the artist of the \<^verbatim>\<open>fake_user\<close> document.\<close>

definition example_users_null_artist :: users where
  "example_users_null_artist =
     AList.update ''fake_user_1'' (example_fake\<lparr>artist := Some PyNone\<rparr>) example_users"

section \<open>Properties\<close>

subsection \<open>Sequencing\<close>

lemma and_then_Inl [simp]: "and_then (Inl e) f = Inl e"
  by (simp add: and_then_def)

lemma and_then_Inr [simp]: "and_then (Inr x) f = f x"
  by (simp add: and_then_def)

lemma and_then_eq_Inr: "and_then m f = Inr y \<longleftrightarrow> (\<exists>x. m = Inr x \<and> f x = Inr y)"
  by (cases m) simp_all


subsection \<open>Radius to precision\<close>

lemma select_precision_range: "2 \<le> select_precision r \<and> select_precision r \<le> 6"
  by (simp add: select_precision_def)

text \<open>
  C6. The precision is 6 for a radius of at most 2.5 (so for every radius of at most 0),
  5 above 2.5 up to 20, 4 above 20 up to 80, 3 above 80 up to 600 and 2 above 600; a
  larger radius never has a larger precision.
\<close>

theorem select_precision_table:
  "(r \<le> 2.5 \<longrightarrow> select_precision r = 6) \<and>
   (2.5 < r \<and> r \<le> 20 \<longrightarrow> select_precision r = 5) \<and>
   (20 < r \<and> r \<le> 80 \<longrightarrow> select_precision r = 4) \<and>
   (80 < r \<and> r \<le> 600 \<longrightarrow> select_precision r = 3) \<and>
   (600 < r \<longrightarrow> select_precision r = 2) \<and>
   (r \<le> r' \<longrightarrow> select_precision r' \<le> select_precision r)"
  by (simp add: select_precision_def)

theorem select_precision_table_witness:
  "select_precision 2.5 = 6 \<and> select_precision 0 = 6 \<and> select_precision (- 3) = 6 \<and>
   select_precision 20 = 5 \<and> select_precision 80 = 4 \<and> select_precision 600 = 3 \<and>
   select_precision 1000 = 2 \<and> select_precision 1000 \<le> select_precision 5"
  using select_precision_table [of "2.5" 20] select_precision_table [of 0 80]
    select_precision_table [of "- 3" 600] select_precision_table [of 20 1000]
    select_precision_table [of 80 80] select_precision_table [of 600 600]
    select_precision_table [of 1000 1000] select_precision_table [of 5 1000]
  by simp


subsection \<open>The haversine distance\<close>

text \<open>
  The source passes the value of line 74 to \<^verbatim>\<open>math.sqrt\<close> and the root to
  \<^verbatim>\<open>math.asin\<close> as they are, with no clamp. The value is a convex combination of the
  square of a sine and the square of a cosine, so over the real numbers it lies between 0
  and 1 and neither \<open>math_sqrt\<close> nor \<open>math_asin\<close> raises. What rounding does to it in
  floating point is outside this embedding.
\<close>

lemma half_angle_identity:
  "(sin ((y - x) / 2))\<^sup>2 + cos x * cos y = (cos ((x + y) / 2))\<^sup>2" for x y :: real
proof -
  define u v where "u = x / 2" and "v = y / 2"
  have x: "x = 2 * u" and y: "y = 2 * v" by (simp_all add: u_def v_def)
  have d: "(y - x) / 2 = v - u" and s: "(x + y) / 2 = u + v"
    by (simp_all add: u_def v_def field_simps)
  have e: "(sin (v - u))\<^sup>2 + ((cos u)\<^sup>2 - (sin u)\<^sup>2) * ((cos v)\<^sup>2 - (sin v)\<^sup>2) = (cos (u + v))\<^sup>2"
    by (simp add: sin_diff cos_add power2_eq_square algebra_simps)
  show ?thesis
    unfolding d s unfolding x y cos_double by (rule e)
qed

lemma haversine_a_bounds: "0 \<le> haversine_a lat1 lon1 lat2 lon2 \<and> haversine_a lat1 lon1 lat2 lon2 \<le> 1"
proof -
  define s where "s = (sin ((lon2 - lon1) / 2))\<^sup>2"
  define p where "p = (sin ((lat2 - lat1) / 2))\<^sup>2"
  define q where "q = (cos ((lat1 + lat2) / 2))\<^sup>2"
  have s: "0 \<le> s" "s \<le> 1" by (simp_all add: s_def abs_square_le_1)
  have p: "0 \<le> p" "p \<le> 1" by (simp_all add: p_def abs_square_le_1)
  have q: "0 \<le> q" "q \<le> 1" by (simp_all add: q_def abs_square_le_1)
  have k: "cos lat1 * cos lat2 = q - p"
    using half_angle_identity [of lat2 lat1] by (simp add: p_def q_def)
  have a: "haversine_a lat1 lon1 lat2 lon2 = (1 - s) * p + s * q"
    by (simp add: haversine_a_def k s_def [symmetric] p_def [symmetric] algebra_simps)
  have lo: "0 \<le> (1 - s) * p + s * q" using s p q by simp
  have "(1 - s) * p \<le> (1 - s) * 1" using s p by (intro mult_left_mono) simp_all
  moreover have "s * q \<le> s * 1" using s q by (intro mult_left_mono) simp_all
  ultimately have hi: "(1 - s) * p + s * q \<le> 1" by simp
  show ?thesis using a lo hi by simp
qed

lemma haversine_returns:
  "haversine lat1 lon1 lat2 lon2 =
     Inr (2 * arcsin (sqrt (haversine_a (radians lat1) (radians lon1) (radians lat2) (radians lon2))) * EARTH_RADIUS_KM)"
proof -
  let ?a = "haversine_a (radians lat1) (radians lon1) (radians lat2) (radians lon2)"
  have b: "0 \<le> ?a" "?a \<le> 1" using haversine_a_bounds by blast+
  have r: "0 \<le> sqrt ?a" "sqrt ?a \<le> 1" using b by simp_all
  have n: "\<not> sqrt ?a < - 1" using r by linarith
  show ?thesis using b r n
    by (simp add: haversine_def math_sqrt_def math_asin_def and_then_def Let_def)
qed

lemma haversine_a_sym: "haversine_a lat1 lon1 lat2 lon2 = haversine_a lat2 lon2 lat1 lon1"
proof -
  have m: "(sin ((b - a) / 2))\<^sup>2 = (sin ((a - b) / 2))\<^sup>2" for a b :: real
  proof -
    have e: "(b - a) / 2 = - ((a - b) / 2)" by argo
    show ?thesis unfolding e by (simp only: sin_minus power2_minus)
  qed
  show ?thesis by (simp add: haversine_a_def m [of lat1 lat2] m [of lon1 lon2] mult.commute)
qed


lemma haversine_same_point: "haversine lat lon lat lon = Inr 0"
  by (simp add: haversine_returns haversine_a_def)

text \<open>
  C8. Over the real numbers, the distance is symmetric in its two points, and the
  distance of a point to itself is 0.
\<close>

theorem haversine_symmetric:
  "haversine lat1 lon1 lat2 lon2 = haversine lat2 lon2 lat1 lon1 \<and>
   haversine lat1 lon1 lat1 lon1 = Inr 0"
proof
  show "haversine lat1 lon1 lat2 lon2 = haversine lat2 lon2 lat1 lon1"
    by (simp add: haversine_returns haversine_a_sym [of "radians lat1"])
  show "haversine lat1 lon1 lat1 lon1 = Inr 0"
    by (rule haversine_same_point)
qed

subsection \<open>The neighbourhood of a cell\<close>

lemma get_all_neighbors_Inr:
  assumes r: "get_all_neighbors adjacent h = Inr cells"
  shows "\<exists>n s e w nw ne sw se.
           adjacent h Top = Inr n \<and> adjacent h Bottom = Inr s \<and>
           adjacent h Right = Inr e \<and> adjacent h Left = Inr w \<and>
           adjacent n Left = Inr nw \<and> adjacent n Right = Inr ne \<and>
           adjacent s Left = Inr sw \<and> adjacent s Right = Inr se \<and>
           cells = remdups [h, n, s, e, w, nw, ne, sw, se]"
proof -
  obtain n where n: "adjacent h Top = Inr n"
    using r by (cases "adjacent h Top") (simp_all add: get_all_neighbors_def)
  obtain s where s: "adjacent h Bottom = Inr s"
    using r n by (cases "adjacent h Bottom") (simp_all add: get_all_neighbors_def)
  obtain e where e: "adjacent h Right = Inr e"
    using r n s by (cases "adjacent h Right") (simp_all add: get_all_neighbors_def)
  obtain w where w: "adjacent h Left = Inr w"
    using r n s e by (cases "adjacent h Left") (simp_all add: get_all_neighbors_def)
  obtain nw where nw: "adjacent n Left = Inr nw"
    using r n s e w by (cases "adjacent n Left") (simp_all add: get_all_neighbors_def)
  obtain ne where ne: "adjacent n Right = Inr ne"
    using r n s e w nw by (cases "adjacent n Right") (simp_all add: get_all_neighbors_def)
  obtain sw where sw: "adjacent s Left = Inr sw"
    using r n s e w nw ne by (cases "adjacent s Left") (simp_all add: get_all_neighbors_def)
  obtain se where se: "adjacent s Right = Inr se"
    using r n s e w nw ne sw by (cases "adjacent s Right") (simp_all add: get_all_neighbors_def)
  have "cells = remdups [h, n, s, e, w, nw, ne, sw, se]"
    using r n s e w nw ne sw se by (simp add: get_all_neighbors_def del: remdups.simps)
  then show ?thesis using n s e w nw ne sw se by blast
qed

lemma get_all_neighbors_Inl:
  assumes "get_all_neighbors adjacent h = Inl e"
  shows "\<exists>g d. adjacent g d = Inl e"
proof (rule ccontr)
  assume n: "\<nexists>g d. adjacent g d = Inl e"
  have s: "and_then m f = Inl e \<Longrightarrow> m \<noteq> Inl e \<Longrightarrow> \<exists>x. m = Inr x \<and> f x = Inl e"
    for m :: "py_exception + string" and f :: "string \<Rightarrow> py_exception + string list"
    by (cases m) simp_all
  have a: "adjacent g d \<noteq> Inl e" for g d using n by blast
  from assms obtain n1 where 1: "and_then (adjacent h Bottom) (\<lambda>s.
     and_then (adjacent h Right) (\<lambda>e.
     and_then (adjacent h Left) (\<lambda>w.
     and_then (adjacent n1 Left) (\<lambda>nw.
     and_then (adjacent n1 Right) (\<lambda>ne.
     and_then (adjacent s Left) (\<lambda>sw.
     and_then (adjacent s Right) (\<lambda>se.
       Inr (remdups [h, n1, s, e, w, nw, ne, sw, se])))))))) = Inl e"
    unfolding get_all_neighbors_def using s a by blast
  then obtain s1 where 2: "and_then (adjacent h Right) (\<lambda>e.
     and_then (adjacent h Left) (\<lambda>w.
     and_then (adjacent n1 Left) (\<lambda>nw.
     and_then (adjacent n1 Right) (\<lambda>ne.
     and_then (adjacent s1 Left) (\<lambda>sw.
     and_then (adjacent s1 Right) (\<lambda>se.
       Inr (remdups [h, n1, s1, e, w, nw, ne, sw, se]))))))) = Inl e"
    using s a by blast
  then obtain e1 where 3: "and_then (adjacent h Left) (\<lambda>w.
     and_then (adjacent n1 Left) (\<lambda>nw.
     and_then (adjacent n1 Right) (\<lambda>ne.
     and_then (adjacent s1 Left) (\<lambda>sw.
     and_then (adjacent s1 Right) (\<lambda>se.
       Inr (remdups [h, n1, s1, e1, w, nw, ne, sw, se])))))) = Inl e"
    using s a by blast
  then obtain w1 where 4: "and_then (adjacent n1 Left) (\<lambda>nw.
     and_then (adjacent n1 Right) (\<lambda>ne.
     and_then (adjacent s1 Left) (\<lambda>sw.
     and_then (adjacent s1 Right) (\<lambda>se.
       Inr (remdups [h, n1, s1, e1, w1, nw, ne, sw, se]))))) = Inl e"
    using s a by blast
  then obtain nw1 where 5: "and_then (adjacent n1 Right) (\<lambda>ne.
     and_then (adjacent s1 Left) (\<lambda>sw.
     and_then (adjacent s1 Right) (\<lambda>se.
       Inr (remdups [h, n1, s1, e1, w1, nw1, ne, sw, se])))) = Inl e"
    using s a by blast
  then obtain ne1 where 6: "and_then (adjacent s1 Left) (\<lambda>sw.
     and_then (adjacent s1 Right) (\<lambda>se.
       Inr (remdups [h, n1, s1, e1, w1, nw1, ne1, sw, se]))) = Inl e"
    using s a by blast
  then obtain sw1 where 7: "and_then (adjacent s1 Right) (\<lambda>se.
       Inr (remdups [h, n1, s1, e1, w1, nw1, ne1, sw1, se])) = Inl e"
    using s a by blast
  then obtain se1 where "(Inr (remdups [h, n1, s1, e1, w1, nw1, ne1, sw1, se1]) :: py_exception + string list) = Inl e"
    using s a by blast
  then show False by simp
qed

lemma get_all_neighbors_returns:
  assumes "adjacent h Top = Inr n" and "adjacent h Bottom = Inr s"
    and "adjacent h Right = Inr e" and "adjacent h Left = Inr w"
    and "adjacent n Left = Inr nw" and "adjacent n Right = Inr ne"
    and "adjacent s Left = Inr sw" and "adjacent s Right = Inr se"
  shows "get_all_neighbors adjacent h = Inr (remdups [h, n, s, e, w, nw, ne, sw, se])"
  using assms by (simp add: get_all_neighbors_def del: remdups.simps)

lemma library_cells:
  "get_all_neighbors library_get_adjacent ''u4ph7'' =
     Inr [''u4ph7'', ''u4phe'', ''u4ph5'', ''u4phk'', ''u4ph6'', ''u4phd'', ''u4phs'', ''u4ph4'', ''u4phh'']"
  by (simp add: get_all_neighbors_def library_get_adjacent_def neighbor_table_def
      border_table_def base32_def)

lemma library_polar_cell:
  "library_get_adjacent ''upbpb'' Top = Inl ValueError"
  "get_all_neighbors library_get_adjacent ''upbpb'' = Inl ValueError"
  by (simp_all add: get_all_neighbors_def library_get_adjacent_def neighbor_table_def
      border_table_def base32_def)

text \<open>
  C7, as amended. The neighbourhood is returned exactly when the eight calls of the
  adjacency return: it is then the list of the cell and the eight results without
  duplicates, so it contains the cell itself, has no cell twice and has between 1 and 9
  cells. When a call raises, \<open>get_all_neighbors\<close> raises that exception and returns no
  collection.
\<close>

theorem get_all_neighbors_set:
  "(\<forall>cells. get_all_neighbors adjacent h = Inr cells \<longrightarrow>
      h \<in> set cells \<and> distinct cells \<and> 1 \<le> length cells \<and> length cells \<le> 9 \<and>
      (\<exists>n s e w nw ne sw se.
          adjacent h Top = Inr n \<and> adjacent h Bottom = Inr s \<and>
          adjacent h Right = Inr e \<and> adjacent h Left = Inr w \<and>
          adjacent n Left = Inr nw \<and> adjacent n Right = Inr ne \<and>
          adjacent s Left = Inr sw \<and> adjacent s Right = Inr se \<and>
          cells = remdups [h, n, s, e, w, nw, ne, sw, se])) \<and>
   (\<forall>n s e w nw ne sw se.
      adjacent h Top = Inr n \<longrightarrow> adjacent h Bottom = Inr s \<longrightarrow>
      adjacent h Right = Inr e \<longrightarrow> adjacent h Left = Inr w \<longrightarrow>
      adjacent n Left = Inr nw \<longrightarrow> adjacent n Right = Inr ne \<longrightarrow>
      adjacent s Left = Inr sw \<longrightarrow> adjacent s Right = Inr se \<longrightarrow>
      get_all_neighbors adjacent h = Inr (remdups [h, n, s, e, w, nw, ne, sw, se])) \<and>
   (\<forall>x. get_all_neighbors adjacent h = Inl x \<longrightarrow> (\<exists>g d. adjacent g d = Inl x)) \<and>
   (\<forall>x. adjacent h Top = Inl x \<longrightarrow> get_all_neighbors adjacent h = Inl x)"
proof (intro conjI allI impI)
  fix cells assume r: "get_all_neighbors adjacent h = Inr cells"
  then obtain n s e w nw ne sw se where a: "adjacent h Top = Inr n" "adjacent h Bottom = Inr s"
      "adjacent h Right = Inr e" "adjacent h Left = Inr w"
      "adjacent n Left = Inr nw" "adjacent n Right = Inr ne"
      "adjacent s Left = Inr sw" "adjacent s Right = Inr se"
      and c: "cells = remdups [h, n, s, e, w, nw, ne, sw, se]"
    using get_all_neighbors_Inr [of adjacent h cells] by blast
  have "set cells = set [h, n, s, e, w, nw, ne, sw, se]"
    unfolding c by (rule set_remdups)
  then show m: "h \<in> set cells" by simp
  show "distinct cells" unfolding c by (rule distinct_remdups)
  have "length cells \<le> length [h, n, s, e, w, nw, ne, sw, se]"
    unfolding c by (rule length_remdups_leq)
  then show "length cells \<le> 9" by simp
  from m have "cells \<noteq> []" by auto
  then show "1 \<le> length cells" by (cases cells) simp_all
  show "\<exists>n s e w nw ne sw se.
          adjacent h Top = Inr n \<and> adjacent h Bottom = Inr s \<and>
          adjacent h Right = Inr e \<and> adjacent h Left = Inr w \<and>
          adjacent n Left = Inr nw \<and> adjacent n Right = Inr ne \<and>
          adjacent s Left = Inr sw \<and> adjacent s Right = Inr se \<and>
          cells = remdups [h, n, s, e, w, nw, ne, sw, se]"
    using a c by blast
next
  fix n s e w nw ne sw se
  assume "adjacent h Top = Inr n" "adjacent h Bottom = Inr s"
    "adjacent h Right = Inr e" "adjacent h Left = Inr w"
    "adjacent n Left = Inr nw" "adjacent n Right = Inr ne"
    "adjacent s Left = Inr sw" "adjacent s Right = Inr se"
  then show "get_all_neighbors adjacent h = Inr (remdups [h, n, s, e, w, nw, ne, sw, se])"
    by (rule get_all_neighbors_returns)
next
  fix x assume "get_all_neighbors adjacent h = Inl x"
  then show "\<exists>g d. adjacent g d = Inl x" by (rule get_all_neighbors_Inl)
next
  fix x assume "adjacent h Top = Inl x"
  then show "get_all_neighbors adjacent h = Inl x" by (simp add: get_all_neighbors_def)
qed

theorem get_all_neighbors_set_witness:
  "library_get_adjacent ''u4ph7'' Top = Inr ''u4phe'' \<and>
   library_get_adjacent ''u4ph7'' Bottom = Inr ''u4ph5'' \<and>
   library_get_adjacent ''u4ph7'' Right = Inr ''u4phk'' \<and>
   library_get_adjacent ''u4ph7'' Left = Inr ''u4ph6'' \<and>
   library_get_adjacent ''u4phe'' Left = Inr ''u4phd'' \<and>
   library_get_adjacent ''u4phe'' Right = Inr ''u4phs'' \<and>
   library_get_adjacent ''u4ph5'' Left = Inr ''u4ph4'' \<and>
   library_get_adjacent ''u4ph5'' Right = Inr ''u4phh'' \<and>
   get_all_neighbors library_get_adjacent ''u4ph7'' =
     Inr [''u4ph7'', ''u4phe'', ''u4ph5'', ''u4phk'', ''u4ph6'', ''u4phd'', ''u4phs'', ''u4ph4'', ''u4phh''] \<and>
   ''u4ph7'' \<in> set [''u4ph7'', ''u4phe'', ''u4ph5'', ''u4phk'', ''u4ph6'', ''u4phd'', ''u4phs'', ''u4ph4'', ''u4phh''] \<and>
   distinct [''u4ph7'', ''u4phe'', ''u4ph5'', ''u4phk'', ''u4ph6'', ''u4phd'', ''u4phs'', ''u4ph4'', ''u4phh''] \<and>
   length [''u4ph7'', ''u4phe'', ''u4ph5'', ''u4phk'', ''u4ph6'', ''u4phd'', ''u4phs'', ''u4ph4'', ''u4phh''] = 9 \<and>
   get_all_neighbors (\<lambda>g d. Inr g) ''u4ph7'' = Inr [''u4ph7''] \<and>
   library_get_adjacent ''upbpb'' Top = Inl ValueError \<and>
   get_all_neighbors library_get_adjacent ''upbpb'' = Inl ValueError"
proof -
  have a: "library_get_adjacent ''u4ph7'' Top = Inr ''u4phe''"
    "library_get_adjacent ''u4ph7'' Bottom = Inr ''u4ph5''"
    "library_get_adjacent ''u4ph7'' Right = Inr ''u4phk''"
    "library_get_adjacent ''u4ph7'' Left = Inr ''u4ph6''"
    "library_get_adjacent ''u4phe'' Left = Inr ''u4phd''"
    "library_get_adjacent ''u4phe'' Right = Inr ''u4phs''"
    "library_get_adjacent ''u4ph5'' Left = Inr ''u4ph4''"
    "library_get_adjacent ''u4ph5'' Right = Inr ''u4phh''"
    by (simp_all add: library_get_adjacent_def neighbor_table_def border_table_def base32_def)
  note t = get_all_neighbors_set [where adjacent = library_get_adjacent and h = "''u4ph7''"]
  have v: "get_all_neighbors library_get_adjacent ''u4ph7'' =
     Inr (remdups [''u4ph7'', ''u4phe'', ''u4ph5'', ''u4phk'', ''u4ph6'', ''u4phd'', ''u4phs'', ''u4ph4'', ''u4phh''])"
    using t a by blast
  have c: "get_all_neighbors (\<lambda>g d. Inr g :: py_exception + string) ''u4ph7'' = Inr [''u4ph7'']"
    by (simp add: get_all_neighbors_def)
  have p: "get_all_neighbors library_get_adjacent ''upbpb'' = Inl ValueError"
    using get_all_neighbors_set [where adjacent = library_get_adjacent and h = "''upbpb''"]
      library_polar_cell(1) by blast
  show ?thesis
    using a v c p library_polar_cell(1) by simp
qed

text \<open>
  Against C7 as the specification states it: \<^verbatim>\<open>upbpb\<close> is a geohash, of a cell that
  touches the north pole; the adjacency of the library raises ValueError on its upper
  side, and \<open>get_all_neighbors\<close> raises with it where the specification expects a
  collapsed neighbourhood.
\<close>

theorem polar_cell_has_no_neighbourhood:
  "valid_geohash ''upbpb'' \<and>
   library_get_adjacent ''upbpb'' Top = Inl ValueError \<and>
   get_all_neighbors library_get_adjacent ''upbpb'' = Inl ValueError"
  using library_polar_cell by (simp add: valid_geohash_def base32_def)

subsection \<open>The range of a cell\<close>


lemma base32_below_tilde: "c \<in> set base32 \<Longrightarrow> c < CHR ''~''"
  by (auto simp: base32_def)

lemma append_less_append: "p @ r < p @ s \<longleftrightarrow> r < s" for p :: string
  by (induction p) simp_all

lemma append_le_self: "p \<le> p @ r" for p :: string
  by (induction p) simp_all

lemma prefix_imp_half_open:
  assumes "prefix p g" and "valid_geohash g"
  shows "p \<le> g \<and> g < p @ ''~''"
proof -
  obtain r where g: "g = p @ r" using assms(1) by (auto simp: prefix_def)
  have "r < ''~''"
  proof (cases r)
    case Nil
    then show ?thesis by simp
  next
    case (Cons c cs)
    then have "c \<in> set base32" using assms(2) g by (simp add: valid_geohash_def)
    then show ?thesis using Cons by (simp add: base32_below_tilde)
  qed
  then show ?thesis by (simp add: g append_less_append append_le_self)
qed



lemma closed_upper_bound:
  "query_matches ''u4ph7y''
     (no_fields\<lparr>geohash := Some (PyStr ''u4ph7y~''), location_sharing_enabled := Some (PyBool True)\<rparr>)
   \<and> \<not> half_open_candidate ''u4ph7y''
     (no_fields\<lparr>geohash := Some (PyStr ''u4ph7y~''), location_sharing_enabled := Some (PyBool True)\<rparr>)"
  by (simp add: query_matches_def half_open_candidate_def no_fields_def)

subsection \<open>The rows of a search\<close>

lemma haversine_stored_Inr:
  "haversine_stored clat clon lat lon = Inr km \<longleftrightarrow>
     (\<exists>x y. number_of lat = Some x \<and> number_of lon = Some y \<and> haversine clat clon x y = Inr km)"
  by (auto simp: haversine_stored_def split: option.splits)

lemma haversine_stored_Inl:
  assumes "haversine_stored clat clon lat lon = Inl e"
  shows "e = TypeError \<and> (number_of lat = None \<or> number_of lon = None)"
  using assms by (auto simp: haversine_stored_def haversine_returns split: option.splits)

lemma haversine_stored_numbers:
  assumes "number_of lat = Some x" and "number_of lon = Some y"
  shows "haversine_stored clat clon lat lon = haversine clat clon x y"
  using assms by (simp add: haversine_stored_def)

lemma fake_user_row_Inr:
  assumes "fake_user_row env i d lat lon = Inr row"
  shows "\<exists>an. (case artist d of None \<Rightarrow> PyStr ''Artist'' | Some a \<Rightarrow> a) = PyStr an \<and>
           row =
             \<lparr>row_id = i, row_latitude = lat, row_longitude = lon,
              row_track_name = (case track d of None \<Rightarrow> PyStr ''Song'' | Some t \<Rightarrow> t),
              row_artist = PyStr an,
              row_album_art_url =
                (case image_url d of
                   None \<Rightarrow> PyStr ''https://cdn-icons-png.flaticon.com/512/3209/3209995.png''
                 | Some u \<Rightarrow> u),
              row_user_name = (case user_name d of None \<Rightarrow> PyStr ''Anonymous'' | Some u \<Rightarrow> u),
              row_spotify_url = ''https://open.spotify.com/'',
              row_track_url =
                ''https://open.spotify.com/search/'' @
                urllib_quote env
                  (format_value env (case track d of None \<Rightarrow> PyStr ''Song'' | Some t \<Rightarrow> t) @
                   '' '' @ an),
              row_artist_url =
                ''https://open.spotify.com/search/'' @ urllib_quote env an @ ''&type=artist''\<rparr>"
proof -
  obtain enc where q: "quote_value env (case artist d of None \<Rightarrow> PyStr ''Artist'' | Some a \<Rightarrow> a) = Inr enc"
    using assms
    by (cases "quote_value env (case artist d of None \<Rightarrow> PyStr ''Artist'' | Some a \<Rightarrow> a)")
      (simp_all add: fake_user_row_def Let_def)
  then obtain an where a: "(case artist d of None \<Rightarrow> PyStr ''Artist'' | Some a \<Rightarrow> a) = PyStr an"
      and e: "enc = urllib_quote env an"
    by (auto simp: quote_value_def split: py_value.splits)
  show ?thesis
    using assms q a e by (auto simp: fake_user_row_def Let_def format_value_def)
qed

lemma fake_user_row_Inl:
  assumes "fake_user_row env i d lat lon = Inl e"
  shows "e = TypeError \<and> (\<exists>a. artist d = Some a \<and> \<not> is_string a)"
  using assms
  by (auto simp: fake_user_row_def Let_def quote_value_def is_string_def and_then_def
      split: option.splits py_value.splits sum.splits)

lemma fake_user_row_sel:
  assumes "fake_user_row env i d lat lon = Inr row"
  shows "row_id row = i" and "row_latitude row = lat" and "row_longitude row = lon"
  using fake_user_row_Inr [OF assms] by auto

lemma now_playing_row_Some:
  assumes "now_playing_row env tok i lat lon = Some row"
  shows "\<exists>tr it a as img imgs.
           current_user_playing_track env tok = Inr (Some tr) \<and>
           truthy_value (dict_get (is_playing tr)) \<and> item tr = Some it \<and>
           track_artists it = a # as \<and> album_images it = img # imgs \<and>
           row =
             \<lparr>row_id = i, row_latitude = lat, row_longitude = lon,
              row_track_name = PyStr (track_name it), row_artist = PyStr (artist_name a),
              row_album_art_url = PyStr img,
              row_user_name = fst (profile_or_default env tok),
              row_spotify_url = snd (profile_or_default env tok),
              row_track_url = track_spotify_url it,
              row_artist_url = artist_spotify_url a\<rparr>"
  using assms
  by (auto simp: now_playing_row_def Let_def split: sum.splits option.splits if_splits list.splits)

lemma now_playing_row_sel:
  assumes "now_playing_row env tok i lat lon = Some row"
  shows "row_id row = i" and "row_latitude row = lat" and "row_longitude row = lon"
  using now_playing_row_Some [OF assms] by auto

text \<open>The six ways through the loop body.\<close>

lemma visit_doc_cases [case_names requester no_coordinates not_a_number far fake live]:
  obtains
    "fst doc = sid" and "visit_doc env sid clat clon r doc rows db = (Inr rows, db)"
  | "fst doc \<noteq> sid" and "latitude (snd doc) = None \<or> longitude (snd doc) = None"
      and "visit_doc env sid clat clon r doc rows db = (Inr rows, db)"
  | lat lon where "fst doc \<noteq> sid" and "latitude (snd doc) = Some lat"
      and "longitude (snd doc) = Some lon"
      and "number_of lat = None \<or> number_of lon = None"
      and "visit_doc env sid clat clon r doc rows db = (Inl TypeError, db)"
  | lat lon km where "fst doc \<noteq> sid" and "latitude (snd doc) = Some lat"
      and "longitude (snd doc) = Some lon"
      and "haversine_stored clat clon lat lon = Inr km" and "\<not> km \<le> r * 1.1"
      and "visit_doc env sid clat clon r doc rows db = (Inr rows, db)"
  | lat lon km where "fst doc \<noteq> sid" and "latitude (snd doc) = Some lat"
      and "longitude (snd doc) = Some lon"
      and "haversine_stored clat clon lat lon = Inr km" and "km \<le> r * 1.1"
      and "sublist ''fake_user'' (fst doc)"
      and "visit_doc env sid clat clon r doc rows db =
             (case fake_user_row env (fst doc) (snd doc) lat lon of
                Inl e \<Rightarrow> (Inl e, db)
              | Inr row \<Rightarrow> (Inr (rows @ [row]), db))"
  | lat lon km where "fst doc \<noteq> sid" and "latitude (snd doc) = Some lat"
      and "longitude (snd doc) = Some lon"
      and "haversine_stored clat clon lat lon = Inr km" and "km \<le> r * 1.1"
      and "\<not> sublist ''fake_user'' (fst doc)"
      and "visit_doc env sid clat clon r doc rows db =
             (case get_token_info env db (fst doc) of
                (Inl e, db') \<Rightarrow> (Inl e, db')
              | (Inr tok, db') \<Rightarrow>
                  if truthy_value tok
                  then (case now_playing_row env tok (fst doc) lat lon of
                          None \<Rightarrow> (Inr rows, db')
                        | Some row \<Rightarrow> (Inr (rows @ [row]), db'))
                  else (Inr rows, db'))"
proof (cases "fst doc = sid")
  case True
  then show ?thesis using that(1) by (simp add: visit_doc_def)
next
  case ns: False
  show ?thesis
  proof (cases "latitude (snd doc)")
    case None
    then show ?thesis using that(2) ns by (simp add: visit_doc_def)
  next
    case lat: (Some lat)
    show ?thesis
    proof (cases "longitude (snd doc)")
      case None
      then show ?thesis using that(2) ns lat by (simp add: visit_doc_def)
    next
      case lon: (Some lon)
      show ?thesis
      proof (cases "haversine_stored clat clon lat lon")
        case (Inl e)
        note h = haversine_stored_Inl [OF Inl]
        have "visit_doc env sid clat clon r doc rows db = (Inl TypeError, db)"
          using ns lat lon Inl h by (simp add: visit_doc_def)
        then show ?thesis using that(3) ns lat lon h by blast
      next
        case km: (Inr km)
        show ?thesis
        proof (cases "km \<le> r * 1.1")
          case False
          then have "visit_doc env sid clat clon r doc rows db = (Inr rows, db)"
            using ns lat lon km by (simp add: visit_doc_def)
          then show ?thesis using that(4) ns lat lon km False by blast
        next
          case near: True
          show ?thesis
          proof (cases "sublist ''fake_user'' (fst doc)")
            case True
            then have "visit_doc env sid clat clon r doc rows db =
                (case fake_user_row env (fst doc) (snd doc) lat lon of
                   Inl e \<Rightarrow> (Inl e, db)
                 | Inr row \<Rightarrow> (Inr (rows @ [row]), db))"
              using ns lat lon km near by (simp add: visit_doc_def)
            then show ?thesis using that(5) ns lat lon km near True by blast
          next
            case False
            then have "visit_doc env sid clat clon r doc rows db =
                (case get_token_info env db (fst doc) of
                   (Inl e, db') \<Rightarrow> (Inl e, db')
                 | (Inr tok, db') \<Rightarrow>
                     if truthy_value tok
                     then (case now_playing_row env tok (fst doc) lat lon of
                             None \<Rightarrow> (Inr rows, db')
                           | Some row \<Rightarrow> (Inr (rows @ [row]), db'))
                     else (Inr rows, db'))"
              using ns lat lon km near by (simp add: visit_doc_def Let_def)
            then show ?thesis using that(6) ns lat lon km near False by blast
          qed
        qed
      qed
    qed
  qed
qed

lemma visit_doc_Inr:
  assumes "visit_doc env sid clat clon r doc rows db = (Inr rows', db')"
  shows "rows' = rows \<or> (\<exists>row. rows' = rows @ [row] \<and> accepted_row env sid clat clon r row)"
proof (cases "fst doc = sid")
  case True
  then show ?thesis using assms by (simp add: visit_doc_def)
next
  case ns: False
  show ?thesis
  proof (cases "latitude (snd doc)")
    case None
    then show ?thesis using assms ns by (simp add: visit_doc_def)
  next
    case lat: (Some lat)
    show ?thesis
    proof (cases "longitude (snd doc)")
      case None
      then show ?thesis using assms ns lat by (simp add: visit_doc_def)
    next
      case lon: (Some lon)
      obtain dist where dist: "haversine_stored clat clon lat lon = Inr dist"
        using assms ns lat lon
        by (cases "haversine_stored clat clon lat lon") (simp_all add: visit_doc_def)
      show ?thesis
      proof (cases "dist \<le> r * 1.1")
        case False
        then show ?thesis using assms ns lat lon dist by (simp add: visit_doc_def)
      next
        case near: True
        show ?thesis
        proof (cases "sublist ''fake_user'' (fst doc)")
          case True
          then obtain row where f: "fake_user_row env (fst doc) (snd doc) lat lon = Inr row"
              and r: "rows' = rows @ [row]"
            using assms ns lat lon dist near
            by (cases "fake_user_row env (fst doc) (snd doc) lat lon")
              (simp_all add: visit_doc_def)
          have "accepted_row env sid clat clon r row"
            unfolding accepted_row_def
            using True ns dist near f fake_user_row_sel [OF f] by auto
          then show ?thesis using r by blast
        next
          case nf: False
          obtain res db1 where g: "get_token_info env db (fst doc) = (res, db1)"
            by (cases "get_token_info env db (fst doc)")
          have v: "visit_doc env sid clat clon r doc rows db =
                (case res of Inl e \<Rightarrow> (Inl e, db1)
                 | Inr tok \<Rightarrow> if truthy_value tok
                     then (case now_playing_row env tok (fst doc) lat lon of
                             None \<Rightarrow> (Inr rows, db1)
                           | Some row \<Rightarrow> (Inr (rows @ [row]), db1))
                     else (Inr rows, db1))"
            using ns lat lon dist near nf g
            by (simp add: visit_doc_def split: sum.splits)
          show ?thesis
          proof (cases "rows' = rows")
            case True
            then show ?thesis by simp
          next
            case False
            then obtain tok row where t: "res = Inr tok" "truthy_value tok"
                "now_playing_row env tok (fst doc) lat lon = Some row" "rows' = rows @ [row]"
              using assms unfolding v by (auto split: sum.splits option.splits if_splits)
            have "accepted_row env sid clat clon r row"
              unfolding accepted_row_def
              using now_playing_row_sel [OF t(3)] t g ns nf dist near
              by (auto intro!: exI [of _ db] exI [of _ tok])
            then show ?thesis using t(4) by blast
          qed
        qed
      qed
    qed
  qed
qed

lemma scan_docs_accepted:
  assumes "scan_docs env sid clat clon r docs rows db = (Inr rows', db')"
    and "\<forall>row \<in> set rows. accepted_row env sid clat clon r row"
  shows "\<forall>row \<in> set rows'. accepted_row env sid clat clon r row"
  using assms
proof (induction docs arbitrary: rows db)
  case Nil
  then show ?case by simp
next
  case (Cons doc docs)
  obtain res db1 where v: "visit_doc env sid clat clon r doc rows db = (res, db1)"
    by (cases "visit_doc env sid clat clon r doc rows db")
  from Cons.prems(1) v obtain rows1 where r: "res = Inr rows1"
    by (cases res) simp_all
  have "\<forall>row \<in> set rows1. accepted_row env sid clat clon r row"
    using visit_doc_Inr [OF v [unfolded r]] Cons.prems(2) by auto
  moreover have "scan_docs env sid clat clon r docs rows1 db1 = (Inr rows', db')"
    using Cons.prems(1) v r by simp
  ultimately show ?case using Cons.IH by blast
qed

lemma scan_cells_accepted:
  assumes "scan_cells env sid clat clon r cells rows db = (Inr rows', db')"
    and "\<forall>row \<in> set rows. accepted_row env sid clat clon r row"
  shows "\<forall>row \<in> set rows'. accepted_row env sid clat clon r row"
  using assms
proof (induction cells arbitrary: rows db)
  case Nil
  then show ?case by simp
next
  case (Cons cell cells)
  from Cons.prems(1) obtain docs where q: "query_stream env db cell = Inr docs"
    by (cases "query_stream env db cell") simp_all
  obtain res db1 where v: "scan_docs env sid clat clon r docs rows db = (res, db1)"
    by (cases "scan_docs env sid clat clon r docs rows db")
  from Cons.prems(1) q v obtain rows1 where r: "res = Inr rows1"
    by (cases res) simp_all
  have "\<forall>row \<in> set rows1. accepted_row env sid clat clon r row"
    using scan_docs_accepted [OF v [unfolded r]] Cons.prems(2) by blast
  moreover have "scan_cells env sid clat clon r cells rows1 db1 = (Inr rows', db')"
    using Cons.prems(1) q v r by simp
  ultimately show ?case using Cons.IH by blast
qed

lemma users_nearby_Inr:
  assumes "users_nearby env db session body = (Inr rows, db')"
  shows "\<exists>sid clat clon r g cells. session = Some sid \<and> sid \<noteq> [] \<and>
           parse_request body = Some (clat, clon, r) \<and>
           pgh_encode env clat clon (select_precision r) = Inr g \<and>
           get_all_neighbors (pgh_get_adjacent env) g = Inr cells \<and>
           scan_cells env sid clat clon r cells [] db = (Inr rows, db')"
  using assms
  by (auto simp: users_nearby_def Let_def split: option.splits if_splits sum.splits prod.splits)

lemma users_nearby_accepted:
  assumes "users_nearby env db (Some sid) body = (Inr rows, db')"
    and "parse_request body = Some (clat, clon, r)"
  shows "\<forall>row \<in> set rows. accepted_row env sid clat clon r row"
proof -
  obtain cells where "scan_cells env sid clat clon r cells [] db = (Inr rows, db')"
    using users_nearby_Inr [OF assms(1)] assms(2) by auto
  then show ?thesis using scan_cells_accepted by fastforce
qed

subsection \<open>The example search\<close>

lemma haversine_antipode: "haversine lat lon (- lat) (lon - 180) = Inr (pi * EARTH_RADIUS_KM)"
proof -
  have d1: "(radians (- lat) - radians lat) / 2 = - radians lat"
    by (simp add: radians_def)
  have d2: "(radians (lon - 180) - radians lon) / 2 = - (pi / 2)"
    by (simp add: radians_def field_simps)
  have c: "cos (radians (- lat)) = cos (radians lat)"
    by (simp add: radians_def)
  have "haversine_a (radians lat) (radians lon) (radians (- lat)) (radians (lon - 180))
          = (sin (radians lat))\<^sup>2 + (cos (radians lat))\<^sup>2"
    unfolding haversine_a_def Let_def d1 d2 c by (simp add: power2_eq_square)
  then have "haversine_a (radians lat) (radians lon) (radians (- lat)) (radians (lon - 180)) = 1"
    by simp
  then show ?thesis by (simp add: haversine_returns)
qed

lemma example_far: "haversine 57 10 (- 57) (- 170) = Inr (pi * 6371)"
  using haversine_antipode [of 57 10] by (simp add: EARTH_RADIUS_KM_def)

lemma example_fields:
  "latitude example_alice = Some (PyNum 57)" "longitude example_alice = Some (PyNum 10)"
  "latitude example_bob = Some (PyNum 57)" "longitude example_bob = Some (PyNum 10)"
  "latitude example_fake = Some (PyNum 57)" "longitude example_fake = Some (PyNum 10)"
  "latitude example_dave = Some (PyNum (- 57))" "longitude example_dave = Some (PyNum (- 170))"
  "spotify_access_token example_bob = Some (PyStr ''BQD-bob'')"
  "expires_at example_bob = Some (PyNum 1700003000)"
  by (simp_all add: example_alice_def example_bob_def example_fake_def example_dave_def
      example_account_def example_located_def)

lemma example_matches:
  "query_matches cell example_alice \<longleftrightarrow> cell \<le> ''u4ph789'' \<and> ''u4ph789'' \<le> cell @ ''~''"
  "query_matches cell example_bob \<longleftrightarrow> cell \<le> ''u4ph789'' \<and> ''u4ph789'' \<le> cell @ ''~''"
  "query_matches cell example_fake \<longleftrightarrow> cell \<le> ''u4ph789'' \<and> ''u4ph789'' \<le> cell @ ''~''"
  "query_matches cell (example_fake\<lparr>artist := a\<rparr>)
     \<longleftrightarrow> cell \<le> ''u4ph789'' \<and> ''u4ph789'' \<le> cell @ ''~''"
  "\<not> query_matches cell example_carol"
  "query_matches cell example_dave \<longleftrightarrow> cell \<le> ''u4ph789'' \<and> ''u4ph789'' \<le> cell @ ''~''"
  "query_matches cell example_erin \<longleftrightarrow> cell \<le> ''9qc0pvd'' \<and> ''9qc0pvd'' \<le> cell @ ''~''"
  by (simp_all add: query_matches_def example_alice_def example_bob_def example_fake_def
      example_carol_def example_dave_def example_erin_def example_account_def
      example_located_def)

lemma example_null_artist_users:
  "example_users_null_artist =
     [(''alice'', example_alice), (''bob'', example_bob),
      (''fake_user_1'', example_fake\<lparr>artist := Some PyNone\<rparr>),
      (''carol'', example_carol), (''dave'', example_dave), (''erin'', example_erin)]"
  by (simp add: example_users_null_artist_def example_users_def)

lemma query_stream_returns:
  assumes "stream_raises env cell = None"
  shows "query_stream env db cell = Inr (filter (\<lambda>doc. query_matches cell (snd doc)) db)"
  using assms by (simp add: query_stream_def)

lemma example_filter_centre:
  "filter (\<lambda>doc. query_matches ''u4ph7'' (snd doc)) example_users =
     [(''alice'', example_alice), (''bob'', example_bob), (''fake_user_1'', example_fake),
      (''dave'', example_dave)]"
  "filter (\<lambda>doc. query_matches ''u4ph7'' (snd doc)) example_users_null_artist =
     [(''alice'', example_alice), (''bob'', example_bob),
      (''fake_user_1'', example_fake\<lparr>artist := Some PyNone\<rparr>), (''dave'', example_dave)]"
  by (simp_all add: example_null_artist_users example_users_def example_matches)

lemma example_filter_other:
  assumes "cell \<in> set [''u4phe'', ''u4ph5'', ''u4phk'', ''u4ph6'', ''u4phd'', ''u4phs'', ''u4ph4'', ''u4phh'']"
  shows "filter (\<lambda>doc. query_matches cell (snd doc)) example_users = []"
    and "filter (\<lambda>doc. query_matches cell (snd doc)) example_users_null_artist = []"
  using assms by (auto simp: example_null_artist_users example_users_def example_matches)

lemma example_parse: "parse_request (Some example_request) = Some (57, 10, 5)"
  by (simp add: parse_request_def example_request_def)

lemma example_encode: "pgh_encode example_env 57 10 (select_precision 5) = Inr ''u4ph7''"
  by (simp add: example_env_def select_precision_def)

lemma visit_doc_requester: "visit_doc env sid clat clon r (sid, d) rows db = (Inr rows, db)"
  by (simp add: visit_doc_def)

lemma example_visit_dave:
  "visit_doc env ''alice'' 57 10 5 (''dave'', example_dave) rows db = (Inr rows, db)"
proof -
  have "\<not> pi * 6371 \<le> 5 * 1.1" using pi_ge_two by simp
  then show ?thesis
    by (simp add: visit_doc_def Let_def example_fields haversine_stored_def number_of_def
        example_far)
qed

lemma example_fake_row:
  assumes "urllib_quote env = urllib_quote example_env"
  shows "fake_user_row env ''fake_user_1'' example_fake (PyNum 57) (PyNum 10) = Inr example_row_fake"
  using assms
  by (simp add: fake_user_row_def Let_def quote_value_def format_value_def example_env_def
      example_fake_def example_located_def example_row_fake_def no_fields_def)

lemma example_visit_fake:
  assumes "urllib_quote env = urllib_quote example_env"
  shows "visit_doc env ''alice'' 57 10 5 (''fake_user_1'', example_fake) rows db
           = (Inr (rows @ [example_row_fake]), db)"
  by (simp add: visit_doc_def Let_def example_fields haversine_stored_def number_of_def
      haversine_same_point example_fake_row [OF assms] sublist_code)

lemma example_token_bob:
  assumes "get_raises env ''bob'' = None" and "spotify_oauth_raises env = None"
    and "is_token_expired env = is_token_expired example_env"
    and "map_of db ''bob'' = Some example_bob"
  shows "get_token_info env db ''bob'' = (Inr (PyStr ''BQD-bob''), db)"
  using assms
  by (simp add: get_token_info_def Let_def dict_get_def example_fields example_env_def)

lemma example_visit_bob:
  assumes "get_raises env ''bob'' = None" and "spotify_oauth_raises env = None"
    and "is_token_expired env = is_token_expired example_env"
    and "map_of db ''bob'' = Some example_bob"
  shows "visit_doc env ''alice'' 57 10 5 (''bob'', example_bob) rows db =
           (Inr (rows @ (case now_playing_row env (PyStr ''BQD-bob'') ''bob'' (PyNum 57) (PyNum 10) of
                           None \<Rightarrow> [] | Some row \<Rightarrow> [row])), db)"
  by (simp add: visit_doc_def Let_def example_fields haversine_stored_def number_of_def
      haversine_same_point example_token_bob [OF assms] truthy_value_def sublist_code
      split: option.splits)

lemma example_map_of_bob:
  "map_of example_users ''bob'' = Some example_bob"
  "map_of example_users_null_artist ''bob'' = Some example_bob"
  by (simp_all add: example_null_artist_users example_users_def)

lemma example_search_any:
  assumes e: "pgh_encode env = pgh_encode example_env"
    and a: "pgh_get_adjacent env = library_get_adjacent"
    and s: "stream_raises env = (\<lambda>hash_prefix. None)"
    and g: "get_raises env ''bob'' = None" and o: "spotify_oauth_raises env = None"
    and x: "is_token_expired env = is_token_expired example_env"
    and q: "urllib_quote env = urllib_quote example_env"
  shows "users_nearby env example_users (Some ''alice'') (Some example_request) =
           (Inr ((case now_playing_row env (PyStr ''BQD-bob'') ''bob'' (PyNum 57) (PyNum 10) of
                    None \<Rightarrow> [] | Some row \<Rightarrow> [row]) @ [example_row_fake]), example_users)"
proof -
  have c: "scan_cells env ''alice'' 57 10 5
     [''u4ph7'', ''u4phe'', ''u4ph5'', ''u4phk'', ''u4ph6'', ''u4phd'', ''u4phs'', ''u4ph4'', ''u4phh'']
     [] example_users =
       (Inr ((case now_playing_row env (PyStr ''BQD-bob'') ''bob'' (PyNum 57) (PyNum 10) of
                None \<Rightarrow> [] | Some row \<Rightarrow> [row]) @ [example_row_fake]), example_users)"
    by (simp add: query_stream_returns s example_filter_centre example_filter_other
        visit_doc_requester example_visit_bob [OF g o x example_map_of_bob(1)]
        example_visit_fake [OF q] example_visit_dave)
  show ?thesis
    by (simp add: users_nearby_def example_parse e example_encode a library_cells c
        del: scan_cells.simps)
qed

lemma example_now_playing:
  "now_playing_row example_env (PyStr ''BQD-bob'') ''bob'' (PyNum 57) (PyNum 10) = Some example_row_bob"
  "now_playing_row example_env_spotify_down (PyStr ''BQD-bob'') ''bob'' (PyNum 57) (PyNum 10) = None"
  "now_playing_row example_env_profile_down (PyStr ''BQD-bob'') ''bob'' (PyNum 57) (PyNum 10)
     = Some example_row_bob_default"
  by (simp_all add: now_playing_row_def example_env_spotify_down_def example_env_profile_down_def
      example_env_def example_track_def example_row_bob_def example_row_bob_default_def
      truthy_value_def dict_get_def profile_or_default_def)

lemma example_search:
  "users_nearby example_env example_users (Some ''alice'') (Some example_request)
     = (Inr [example_row_bob, example_row_fake], example_users)"
proof -
  have "users_nearby example_env example_users (Some ''alice'') (Some example_request) =
      (Inr ((case now_playing_row example_env (PyStr ''BQD-bob'') ''bob'' (PyNum 57) (PyNum 10) of
               None \<Rightarrow> [] | Some row \<Rightarrow> [row]) @ [example_row_fake]), example_users)"
    by (rule example_search_any) (simp_all add: example_env_def)
  then show ?thesis by (simp only: example_now_playing option.case append.simps)
qed

lemma example_search_spotify_down:
  "users_nearby example_env_spotify_down example_users (Some ''alice'') (Some example_request)
     = (Inr [example_row_fake], example_users)"
proof -
  have "users_nearby example_env_spotify_down example_users (Some ''alice'') (Some example_request) =
      (Inr ((case now_playing_row example_env_spotify_down (PyStr ''BQD-bob'') ''bob'' (PyNum 57) (PyNum 10) of
               None \<Rightarrow> [] | Some row \<Rightarrow> [row]) @ [example_row_fake]), example_users)"
    by (rule example_search_any) (simp_all add: example_env_spotify_down_def example_env_def)
  then show ?thesis by (simp only: example_now_playing option.case append.simps)
qed

lemma example_search_profile_down:
  "users_nearby example_env_profile_down example_users (Some ''alice'') (Some example_request)
     = (Inr [example_row_bob_default, example_row_fake], example_users)"
proof -
  have "users_nearby example_env_profile_down example_users (Some ''alice'') (Some example_request) =
      (Inr ((case now_playing_row example_env_profile_down (PyStr ''BQD-bob'') ''bob'' (PyNum 57) (PyNum 10) of
               None \<Rightarrow> [] | Some row \<Rightarrow> [row]) @ [example_row_fake]), example_users)"
    by (rule example_search_any) (simp_all add: example_env_profile_down_def example_env_def)
  then show ?thesis by (simp only: example_now_playing option.case append.simps)
qed

subsection \<open>The distance filter\<close>

lemma users_nearby_rows:
  assumes "users_nearby env db session body = (Inr rows, db')"
  shows "\<exists>sid clat clon r. session = Some sid \<and> parse_request body = Some (clat, clon, r) \<and>
           (\<forall>row \<in> set rows. accepted_row env sid clat clon r row)"
proof -
  obtain sid clat clon r where s: "session = Some sid"
      and p: "parse_request body = Some (clat, clon, r)"
    using users_nearby_Inr [OF assms] by blast
  show ?thesis
    using users_nearby_accepted [OF assms [unfolded s] p] s p by blast
qed

lemma visit_doc_far:
  assumes "latitude d = Some lat" and "longitude d = Some lon"
    and "haversine_stored clat clon lat lon = Inr km" and "r * 1.1 < km"
  shows "visit_doc env sid clat clon r (doc_id, d) rows db = (Inr rows, db)"
  using assms by (simp add: visit_doc_def Let_def)

text \<open>
  C1. Every row of a completed search has coordinates that are numbers and whose
  haversine distance from the centre is at most 1.1 times the radius; and a document
  whose distance exceeds 1.1 times the radius adds no row, whatever its geohash.
\<close>

theorem nearby_rows_within_radius:
  "(\<forall>rows db'. users_nearby env db session body = (Inr rows, db') \<longrightarrow>
      parse_request body = Some (center_lat, center_lon, radius_km) \<longrightarrow>
      (\<forall>row \<in> set rows. \<exists>lat lon distance.
          number_of (row_latitude row) = Some lat \<and> number_of (row_longitude row) = Some lon \<and>
          haversine center_lat center_lon lat lon = Inr distance \<and>
          distance \<le> radius_km * 1.1)) \<and>
   (\<forall>d lat lon distance. latitude d = Some lat \<longrightarrow> longitude d = Some lon \<longrightarrow>
      haversine_stored center_lat center_lon lat lon = Inr distance \<longrightarrow>
      radius_km * 1.1 < distance \<longrightarrow>
      visit_doc env spotify_id center_lat center_lon radius_km (doc_id, d) rows0 db0 = (Inr rows0, db0))"
proof (intro conjI allI impI)
  fix rows db'
  assume u: "users_nearby env db session body = (Inr rows, db')"
    and p: "parse_request body = Some (center_lat, center_lon, radius_km)"
  obtain sid where a: "\<forall>row \<in> set rows. accepted_row env sid center_lat center_lon radius_km row"
    using users_nearby_rows [OF u] p by auto
  show "\<forall>row \<in> set rows. \<exists>lat lon distance.
          number_of (row_latitude row) = Some lat \<and> number_of (row_longitude row) = Some lon \<and>
          haversine center_lat center_lon lat lon = Inr distance \<and>
          distance \<le> radius_km * 1.1"
  proof
    fix row assume "row \<in> set rows"
    then have "accepted_row env sid center_lat center_lon radius_km row" using a by blast
    then obtain km where
      "haversine_stored center_lat center_lon (row_latitude row) (row_longitude row) = Inr km"
      "km \<le> radius_km * 1.1"
      by (auto simp: accepted_row_def)
    then show "\<exists>lat lon distance.
          number_of (row_latitude row) = Some lat \<and> number_of (row_longitude row) = Some lon \<and>
          haversine center_lat center_lon lat lon = Inr distance \<and>
          distance \<le> radius_km * 1.1"
      by (auto simp: haversine_stored_Inr)
  qed
next
  fix d :: user_data and lat lon distance
  assume "latitude d = Some lat" "longitude d = Some lon"
    "haversine_stored center_lat center_lon lat lon = Inr distance" "radius_km * 1.1 < distance"
  then show "visit_doc env spotify_id center_lat center_lon radius_km (doc_id, d) rows0 db0 = (Inr rows0, db0)"
    by (rule visit_doc_far)
qed

theorem nearby_rows_within_radius_witness:
  "users_nearby example_env example_users (Some ''alice'') (Some example_request)
     = (Inr [example_row_bob, example_row_fake], example_users) \<and>
   parse_request (Some example_request) = Some (57, 10, 5) \<and>
   row_latitude example_row_bob = PyNum 57 \<and> row_longitude example_row_bob = PyNum 10 \<and>
   row_latitude example_row_fake = PyNum 57 \<and> row_longitude example_row_fake = PyNum 10 \<and>
   number_of (PyNum 57) = Some 57 \<and> number_of (PyNum 10) = Some 10 \<and>
   haversine 57 10 57 10 = Inr 0 \<and>
   (0 :: real) \<le> 5 * 1.1 \<and>
   example_users ! 4 = (''dave'', example_dave) \<and>
   latitude example_dave = Some (PyNum (- 57)) \<and>
   longitude example_dave = Some (PyNum (- 170)) \<and>
   geohash example_dave = Some (PyStr ''u4ph789'') \<and>
   query_matches ''u4ph7'' example_dave \<and>
   haversine_stored 57 10 (PyNum (- 57)) (PyNum (- 170)) = Inr (pi * 6371) \<and>
   5 * 1.1 < pi * 6371 \<and>
   visit_doc example_env ''alice'' 57 10 5 (''dave'', example_dave) [] example_users
     = (Inr [], example_users)"
proof -
  have c: "row_latitude example_row_bob = PyNum 57" "row_longitude example_row_bob = PyNum 10"
    "row_latitude example_row_fake = PyNum 57" "row_longitude example_row_fake = PyNum 10"
    by (simp_all add: example_row_bob_def example_row_fake_def)
  have d: "example_users ! 4 = (''dave'', example_dave)"
    by (simp add: example_users_def)
  have g: "geohash example_dave = Some (PyStr ''u4ph789'')"
    by (simp add: example_dave_def example_account_def example_located_def)
  have q: "query_matches ''u4ph7'' example_dave"
    by (simp add: example_matches)
  have h: "haversine_stored 57 10 (PyNum (- 57)) (PyNum (- 170)) = Inr (pi * 6371)"
    by (simp add: haversine_stored_def number_of_def example_far)
  have f: "(5 :: real) * 1.1 < pi * 6371" using pi_ge_two by simp
  note c1 = nearby_rows_within_radius [where env = example_env and db = example_users
      and session = "Some ''alice''" and body = "Some example_request" and center_lat = 57
      and center_lon = 10 and radius_km = 5 and spotify_id = "''alice''"
      and doc_id = "''dave''" and ?rows0.0 = "[]" and ?db0.0 = example_users]
  have t: "\<forall>row \<in> set [example_row_bob, example_row_fake]. \<exists>lat lon distance.
          number_of (row_latitude row) = Some lat \<and> number_of (row_longitude row) = Some lon \<and>
          haversine 57 10 lat lon = Inr distance \<and> distance \<le> 5 * 1.1"
    using c1 example_search example_parse by blast
  have v: "visit_doc example_env ''alice'' 57 10 5 (''dave'', example_dave) [] example_users
     = (Inr [], example_users)"
    using c1 example_fields(7,8) h f by blast
  show ?thesis
    using example_search example_parse c d g q h f v example_fields(7,8)
    by (simp add: number_of_def haversine_same_point)
qed

subsection \<open>The requester\<close>

text \<open>
  C2. No row of a completed search has the requester's id; the requester's own document
  adds no row, whatever it holds.
\<close>

theorem requester_excluded:
  "(\<forall>rows db'. users_nearby env db (Some spotify_id) body = (Inr rows, db') \<longrightarrow>
      (\<forall>row \<in> set rows. row_id row \<noteq> spotify_id)) \<and>
   visit_doc env spotify_id center_lat center_lon radius_km (spotify_id, d) rows0 db0 = (Inr rows0, db0)"
proof (intro conjI allI impI)
  fix rows db'
  assume u: "users_nearby env db (Some spotify_id) body = (Inr rows, db')"
  obtain clat clon r where "\<forall>row \<in> set rows. accepted_row env spotify_id clat clon r row"
    using users_nearby_rows [OF u] by auto
  then show "\<forall>row \<in> set rows. row_id row \<noteq> spotify_id"
    by (simp add: accepted_row_def)
next
  show "visit_doc env spotify_id center_lat center_lon radius_km (spotify_id, d) rows0 db0 = (Inr rows0, db0)"
    by (simp add: visit_doc_def)
qed

theorem requester_excluded_witness:
  "users_nearby example_env example_users (Some ''alice'') (Some example_request)
     = (Inr [example_row_bob, example_row_fake], example_users) \<and>
   map_of example_users ''alice'' = Some example_alice \<and>
   query_matches ''u4ph7'' example_alice \<and>
   latitude example_alice = Some (PyNum 57) \<and> longitude example_alice = Some (PyNum 10) \<and>
   haversine 57 10 57 10 = Inr 0 \<and>
   row_id example_row_bob \<noteq> ''alice'' \<and> row_id example_row_fake \<noteq> ''alice''"
proof -
  have m: "map_of example_users ''alice'' = Some example_alice"
    by (simp add: example_users_def)
  have q: "query_matches ''u4ph7'' example_alice"
    by (simp add: example_matches)
  have "\<forall>row \<in> set [example_row_bob, example_row_fake]. row_id row \<noteq> ''alice''"
    using requester_excluded [of example_env example_users "''alice''" "Some example_request"]
      example_search by blast
  then show ?thesis
    using example_search m q example_fields(1,2) by (simp add: haversine_same_point)
qed

subsection \<open>The candidates of a cell\<close>


text \<open>
  The one write of a search, the saving of a refreshed token, stores the sharing flag and
  the coordinates it read, and leaves the artist as it is. So the documents keep their
  ids, their order and their view during a search.
\<close>

lemma update_search_view:
  assumes "map_of db i = Some old" and "search_view d' = search_view old"
  shows "map (\<lambda>(k, d). (k, search_view d)) (AList.update i d' db)
           = map (\<lambda>(k, d). (k, search_view d)) db"
  using assms by (induction db) (auto split: if_splits)

lemma save_user_data_view:
  assumes s: "save_user_data env db i ti location is_sharing = Inr db'"
    and m: "map_of db i = Some old"
    and sh: "(is_sharing = PyBool True) = (location_sharing_enabled old = Some (PyBool True))"
    and loc: "\<forall>lat lon. location = Some (lat, lon) \<longrightarrow> lat \<noteq> PyNone \<longrightarrow> lon \<noteq> PyNone \<longrightarrow>
                latitude old = Some lat \<and> longitude old = Some lon"
  shows "map (\<lambda>(k, d). (k, search_view d)) db' = map (\<lambda>(k, d). (k, search_view d)) db"
proof -
  obtain d' where w: "firestore_write env db i d' = Inr db'"
      and v: "search_view d' = search_view old"
    using s m sh loc
    by (auto simp: save_user_data_def Let_def and_then_eq_Inr search_view_def
        split: option.splits prod.splits if_splits)
  have "db' = AList.update i d' db"
    using w by (auto simp: firestore_write_def split: option.splits)
  then show ?thesis using update_search_view [OF m v] by simp
qed

lemma get_token_info_view:
  assumes g: "get_token_info env db i = (res, db')"
  shows "map (\<lambda>(k, d). (k, search_view d)) db' = map (\<lambda>(k, d). (k, search_view d)) db"
proof (cases "db' = db")
  case True
  then show ?thesis by simp
next
  case False
  then obtain data new_ti where m: "map_of db i = Some data"
      and s: "save_user_data env db i new_ti
                (if truthy_value (dict_get (latitude data))
                 then Some (dict_get (latitude data), dict_get (longitude data)) else None)
                (case location_sharing_enabled data of None \<Rightarrow> PyBool False | Some b \<Rightarrow> b) = Inr db'"
    using g
    by (auto simp: get_token_info_def Let_def split: option.splits sum.splits bool.splits)
  show ?thesis
    by (rule save_user_data_view [OF s m])
      (auto simp: dict_get_def truthy_value_def split: option.splits if_splits)
qed

lemma visit_doc_collection:
  assumes "visit_doc env sid clat clon r doc rows db = (res, db')"
  shows "db' = db \<or> (\<exists>t. get_token_info env db (fst doc) = (t, db'))"
proof (cases rule: visit_doc_cases [of doc sid env clat clon r rows db])
  case (fake lat lon km)
  then show ?thesis using assms by (auto split: sum.splits)
next
  case (live lat lon km)
  obtain t db1 where g: "get_token_info env db (fst doc) = (t, db1)"
    by (cases "get_token_info env db (fst doc)")
  have "db' = db1"
    using assms live(7) g by (auto split: sum.splits option.splits if_splits)
  then show ?thesis using g by blast
qed (use assms in auto)

lemma visit_doc_view:
  assumes "visit_doc env sid clat clon r doc rows db = (res, db')"
  shows "map (\<lambda>(k, d). (k, search_view d)) db' = map (\<lambda>(k, d). (k, search_view d)) db"
  using visit_doc_collection [OF assms] get_token_info_view by auto

lemma scan_docs_view:
  assumes "scan_docs env sid clat clon r docs rows db = (res, db')"
  shows "map (\<lambda>(k, d). (k, search_view d)) db' = map (\<lambda>(k, d). (k, search_view d)) db"
  using assms
proof (induction docs arbitrary: rows db)
  case Nil
  then show ?case by simp
next
  case (Cons doc docs)
  obtain res1 db1 where v: "visit_doc env sid clat clon r doc rows db = (res1, db1)"
    by (cases "visit_doc env sid clat clon r doc rows db")
  note v1 = visit_doc_view [OF v]
  show ?case
  proof (cases res1)
    case (Inl e)
    then show ?thesis using Cons.prems v v1 by simp
  next
    case (Inr rows1)
    then have "scan_docs env sid clat clon r docs rows1 db1 = (res, db')"
      using Cons.prems v by simp
    then have "map (\<lambda>(k, d). (k, search_view d)) db' = map (\<lambda>(k, d). (k, search_view d)) db1"
      by (rule Cons.IH)
    then show ?thesis using v1 by (rule trans)
  qed
qed

lemma scan_cells_view:
  assumes "scan_cells env sid clat clon r cells rows db = (res, db')"
  shows "map (\<lambda>(k, d). (k, search_view d)) db' = map (\<lambda>(k, d). (k, search_view d)) db"
  using assms
proof (induction cells arbitrary: rows db)
  case Nil
  then show ?case by simp
next
  case (Cons cell cells)
  show ?case
  proof (cases "query_stream env db cell")
    case (Inl e)
    then show ?thesis using Cons.prems by simp
  next
    case (Inr docs)
    obtain res1 db1 where v: "scan_docs env sid clat clon r docs rows db = (res1, db1)"
      by (cases "scan_docs env sid clat clon r docs rows db")
    note v1 = scan_docs_view [OF v]
    show ?thesis
    proof (cases res1)
      case (Inl e)
      then show ?thesis using Cons.prems Inr v v1 by simp
    next
      case r: (Inr rows1)
      then have "scan_cells env sid clat clon r cells rows1 db1 = (res, db')"
        using Cons.prems Inr v by simp
      then have "map (\<lambda>(k, d). (k, search_view d)) db' = map (\<lambda>(k, d). (k, search_view d)) db1"
        by (rule Cons.IH)
      then show ?thesis using v1 by (rule trans)
    qed
  qed
qed



lemma view_member:
  assumes "map (\<lambda>(k, d). (k, search_view d)) db' = map (\<lambda>(k, d). (k, search_view d)) db"
    and "doc' \<in> set db'"
  shows "\<exists>doc \<in> set db. fst doc = fst doc' \<and> search_view (snd doc) = search_view (snd doc')"
proof -
  have "(\<lambda>(k, d). (k, search_view d)) doc' \<in> (\<lambda>(k, d). (k, search_view d)) ` set db'"
    using assms(2) by (rule imageI)
  then have "(fst doc', search_view (snd doc')) \<in> set (map (\<lambda>(k, d). (k, search_view d)) db')"
    by (simp add: case_prod_beta)
  then have "(fst doc', search_view (snd doc')) \<in> set (map (\<lambda>(k, d). (k, search_view d)) db)"
    using assms(1) by simp
  then obtain doc where d: "doc \<in> set db"
      and e: "(\<lambda>(k, d). (k, search_view d)) doc = (fst doc', search_view (snd doc'))"
    by auto
  have "fst doc = fst doc' \<and> search_view (snd doc) = search_view (snd doc')"
    using e by (cases doc) simp
  then show ?thesis using d by blast
qed








subsection \<open>The stored geohash\<close>

lemma firestore_write_Inr:
  assumes "firestore_write env db doc_id d = Inr db'"
  shows "map_of db' doc_id = Some d"
  using assms by (auto simp: firestore_write_def update_conv' split: option.splits)

lemma save_user_data_geohash:
  assumes s: "save_user_data env db spotify_id ti (Some (lat, lon)) is_sharing = Inr db'"
    and n: "lat \<noteq> PyNone" "lon \<noteq> PyNone"
  shows "\<exists>x y g d. number_of lat = Some x \<and> number_of lon = Some y \<and>
           pgh_encode env x y 7 = Inr g \<and> map_of db' spotify_id = Some d \<and>
           geohash d = Some (PyStr g) \<and> latitude d = Some lat \<and> longitude d = Some lon"
proof -
  obtain a r e where k: "access_token ti = Some a" "refresh_token ti = Some r"
      "token_expires_at ti = Some e"
    using s by (auto simp: save_user_data_def split: option.splits)
  obtain x where x: "number_of lat = Some x"
    using s k n by (cases "number_of lat") (simp_all add: save_user_data_def Let_def)
  obtain y where y: "number_of lon = Some y"
    using s k n x by (cases "number_of lon") (simp_all add: save_user_data_def Let_def)
  obtain g where g: "pgh_encode env x y 7 = Inr g"
    using s k n x y by (cases "pgh_encode env x y 7") (simp_all add: save_user_data_def Let_def)
  obtain d where w: "firestore_write env db spotify_id d = Inr db'"
      and d: "geohash d = Some (PyStr g)" "latitude d = Some lat" "longitude d = Some lon"
    using s k n x y g by (simp add: save_user_data_def Let_def)
  show ?thesis using x y g firestore_write_Inr [OF w] d by blast
qed

lemma update_location_geohash:
  assumes "update_location env db session form = Inr db'"
    and "form_lat form = Some lat" and "form_lon form = Some lon" and "lat \<noteq> []" and "lon \<noteq> []"
  shows "\<exists>spotify_id x y g d. session = Some spotify_id \<and> float_of env lat = Some x \<and>
           float_of env lon = Some y \<and> pgh_encode env x y 7 = Inr g \<and>
           map_of db' spotify_id = Some d \<and> geohash d = Some (PyStr g) \<and>
           latitude d = Some (PyNum x) \<and> longitude d = Some (PyNum y)"
proof -
  obtain spotify_id where s: "session = Some spotify_id" "spotify_id \<noteq> []"
    using assms(1) by (cases session) (auto simp: update_location_def split: if_splits)
  have t: "truthy (form_lat form) \<and> truthy (form_lon form)"
    using assms(2-5) by (simp add: truthy_def)
  obtain x where x: "float_of env lat = Some x"
    using assms(1-3) s t
    by (cases "float_of env lat") (simp_all add: update_location_def Let_def)
  obtain y where y: "float_of env lon = Some y"
    using assms(1-3) s t x
    by (cases "float_of env lon") (simp_all add: update_location_def Let_def)
  have gr: "get_raises env spotify_id = None"
    using assms(1-3) s t x y
    by (cases "get_raises env spotify_id") (simp_all add: update_location_def Let_def)
  obtain old where old: "map_of db spotify_id = Some old"
    using assms(1-3) s t x y gr
    by (cases "map_of db spotify_id") (simp_all add: update_location_def Let_def)
  obtain g where g: "pgh_encode env x y 7 = Inr g"
    using assms(1-3) s t x y gr old
    by (cases "pgh_encode env x y 7") (simp_all add: update_location_def Let_def)
  obtain d where w: "firestore_write env db spotify_id d = Inr db'"
      and d: "geohash d = Some (PyStr g)" "latitude d = Some (PyNum x)"
        "longitude d = Some (PyNum y)"
    using assms(1-3) s t x y gr old g
    by (simp add: update_location_def Let_def split: sum.splits)
  show ?thesis using s x y g firestore_write_Inr [OF w] d by blast
qed

lemma stored_matches_coarser_cell:
  assumes "valid_geohash g" and "geohash d = Some (PyStr g)"
    and "location_sharing_enabled d = Some (PyBool True)"
  shows "query_matches (take p g) d"
proof -
  have "prefix (take p g) g" by (rule take_is_prefix)
  then have "take p g \<le> g \<and> g < take p g @ ''~''"
    using assms(1) by (rule prefix_imp_half_open)
  then show ?thesis using assms(2,3) by (simp add: query_matches_def less_imp_le)
qed

lemma example_update_location:
  "update_location example_env example_users (Some ''alice'')
     \<lparr>form_lat = Some ''57'', form_lon = Some ''10'', form_sharing = Some ''on''\<rparr>
   = Inr ((''alice'', example_alice\<lparr>last_updated := Some 1700000000\<rparr>) # tl example_users)"
  by (simp add: update_location_def Let_def truthy_def example_env_def example_users_def
      example_alice_def example_account_def example_located_def firestore_write_def
      no_fields_def)

lemma example_save_user_data:
  "save_user_data example_env example_users ''alice''
     \<lparr>access_token = Some (PyStr ''BQA-new''), refresh_token = Some (PyStr ''AQC-new''),
      token_expires_at = Some (PyNum 1700003600)\<rparr>
     (Some (PyNum 57, PyNum 10)) (PyBool True)
   = Inr ((''alice'', example_alice
             \<lparr>spotify_access_token := Some (PyStr ''BQA-new''),
              spotify_refresh_token := Some (PyStr ''AQC-new''),
              expires_at := Some (PyNum 1700003600), last_updated := Some 1700000000\<rparr>)
          # tl example_users)"
  by (simp add: save_user_data_def Let_def example_env_def example_users_def number_of_def
      example_alice_def example_account_def example_located_def firestore_write_def
      no_fields_def)

text \<open>
  C9. \<open>save_user_data\<close> and \<open>update_location\<close>, when they write a location, store the
  geohash that \<^verbatim>\<open>pgh.encode\<close> returns at precision 7, whatever precision a search
  uses. The precision of a search is between 2 and 6, so at most 7, and a stored geohash
  with sharing enabled matches the range query of its own prefix of that length.
\<close>

theorem stored_geohash_precision:
  "(\<forall>db'. save_user_data env db spotify_id ti (Some (lat, lon)) is_sharing = Inr db' \<longrightarrow>
      lat \<noteq> PyNone \<longrightarrow> lon \<noteq> PyNone \<longrightarrow>
      (\<exists>x y g d. number_of lat = Some x \<and> number_of lon = Some y \<and>
         pgh_encode env x y 7 = Inr g \<and> map_of db' spotify_id = Some d \<and>
         geohash d = Some (PyStr g) \<and> latitude d = Some lat \<and> longitude d = Some lon)) \<and>
   (\<forall>db' la lo. update_location env db session form = Inr db' \<longrightarrow>
      form_lat form = Some la \<longrightarrow> form_lon form = Some lo \<longrightarrow> la \<noteq> [] \<longrightarrow> lo \<noteq> [] \<longrightarrow>
      (\<exists>sid x y g d. session = Some sid \<and> float_of env la = Some x \<and>
         float_of env lo = Some y \<and> pgh_encode env x y 7 = Inr g \<and>
         map_of db' sid = Some d \<and> geohash d = Some (PyStr g) \<and>
         latitude d = Some (PyNum x) \<and> longitude d = Some (PyNum y))) \<and>
   2 \<le> select_precision radius_km \<and> select_precision radius_km \<le> 6 \<and>
   select_precision radius_km \<le> 7 \<and>
   (\<forall>g d. valid_geohash g \<longrightarrow> geohash d = Some (PyStr g) \<longrightarrow>
      location_sharing_enabled d = Some (PyBool True) \<longrightarrow>
      query_matches (take (select_precision radius_km) g) d)"
proof (intro conjI allI impI)
  fix db'
  assume "save_user_data env db spotify_id ti (Some (lat, lon)) is_sharing = Inr db'"
    "lat \<noteq> PyNone" "lon \<noteq> PyNone"
  then show "\<exists>x y g d. number_of lat = Some x \<and> number_of lon = Some y \<and>
         pgh_encode env x y 7 = Inr g \<and> map_of db' spotify_id = Some d \<and>
         geohash d = Some (PyStr g) \<and> latitude d = Some lat \<and> longitude d = Some lon"
    by (rule save_user_data_geohash)
next
  fix db' la lo
  assume "update_location env db session form = Inr db'" "form_lat form = Some la"
    "form_lon form = Some lo" "la \<noteq> []" "lo \<noteq> []"
  then show "\<exists>sid x y g d. session = Some sid \<and> float_of env la = Some x \<and>
         float_of env lo = Some y \<and> pgh_encode env x y 7 = Inr g \<and>
         map_of db' sid = Some d \<and> geohash d = Some (PyStr g) \<and>
         latitude d = Some (PyNum x) \<and> longitude d = Some (PyNum y)"
    by (rule update_location_geohash)
next
  fix g and d :: user_data
  assume "valid_geohash g" "geohash d = Some (PyStr g)"
    "location_sharing_enabled d = Some (PyBool True)"
  then show "query_matches (take (select_precision radius_km) g) d"
    by (rule stored_matches_coarser_cell)
qed (use select_precision_range [of radius_km] in simp_all)

theorem stored_geohash_precision_witness:
  "save_user_data example_env example_users ''alice''
     \<lparr>access_token = Some (PyStr ''BQA-new''), refresh_token = Some (PyStr ''AQC-new''),
      token_expires_at = Some (PyNum 1700003600)\<rparr>
     (Some (PyNum 57, PyNum 10)) (PyBool True)
   = Inr ((''alice'', example_alice
             \<lparr>spotify_access_token := Some (PyStr ''BQA-new''),
              spotify_refresh_token := Some (PyStr ''AQC-new''),
              expires_at := Some (PyNum 1700003600), last_updated := Some 1700000000\<rparr>)
          # tl example_users) \<and>
   update_location example_env example_users (Some ''alice'')
     \<lparr>form_lat = Some ''57'', form_lon = Some ''10'', form_sharing = Some ''on''\<rparr>
   = Inr ((''alice'', example_alice\<lparr>last_updated := Some 1700000000\<rparr>) # tl example_users) \<and>
   pgh_encode example_env 57 10 7 = Inr ''u4ph789'' \<and>
   geohash example_alice = Some (PyStr ''u4ph789'') \<and>
   location_sharing_enabled example_alice = Some (PyBool True) \<and>
   length ''u4ph789'' = 7 \<and>
   valid_geohash ''u4ph789'' \<and>
   select_precision 5 = 5 \<and>
   query_matches ''u4ph7'' example_alice"
proof -
  have e: "pgh_encode example_env 57 10 7 = Inr ''u4ph789''"
    by (simp add: example_env_def)
  have v: "valid_geohash ''u4ph789''"
    by (simp add: valid_geohash_def base32_def)
  have p: "select_precision 5 = 5"
    by (simp add: select_precision_def)
  have g: "geohash example_alice = Some (PyStr ''u4ph789'')"
    "location_sharing_enabled example_alice = Some (PyBool True)"
    by (simp_all add: example_alice_def example_account_def example_located_def)
  have "query_matches (take (select_precision 5) ''u4ph789'') example_alice"
    using stored_geohash_precision [where env = example_env and db = example_users
        and spotify_id = "''alice''" and lat = "PyNum 57" and lon = "PyNum 10"
        and is_sharing = "PyBool True" and session = "Some ''alice''" and radius_km = 5
        and ti = "\<lparr>access_token = Some (PyStr ''BQA-new''),
                   refresh_token = Some (PyStr ''AQC-new''),
                   token_expires_at = Some (PyNum 1700003600)\<rparr>"
        and form = "\<lparr>form_lat = Some ''57'', form_lon = Some ''10'', form_sharing = Some ''on''\<rparr>"]
      v g by blast
  then have q: "query_matches ''u4ph7'' example_alice"
    by (simp add: p)
  show ?thesis
    using example_save_user_data example_update_location e v p q g by simp
qed


end
